theory Spec2Isabelle
  imports Main
begin

section \<open>Exceptions of the backend\<close>

text \<open>
  The controllers throw NestJS exceptions (\<open>BadRequestException\<close>, \<open>NotFoundException\<close>,
  each with its message) and rethrow whatever the Prisma client or the chat gateway threw.
  The Node runtime throws a \<open>TypeError\<close> with a code, such as \<open>ERR_INVALID_CHAR\<close> from
  \<open>res.setHeader\<close>. A thrown exception is the \<open>Inl\<close> branch of a sum.
\<close>

datatype prisma_error =
    UniqueConstraintFailed string
  | ForeignKeyConstraintFailed string
  | RecordNotFound
  | CannotReachDatabase

datatype exn =
    BadRequestException string
  | NotFoundException string
  | PrismaClientError prisma_error
  | GatewayError string
  | TypeError string

section \<open>JavaScript values\<close>

text \<open>
  Objects that cross the API boundary are JavaScript objects: a list of own enumerable
  properties in insertion order. Numbers here are byte counts and counters, never
  negative; a \<open>Date\<close> is a timestamp. A JavaScript string is modelled by the bytes of its
  UTF-8 encoding: concatenation, equality and emptiness of the bytes are those of the
  string. A character up to U+007F is one byte, a character from U+0080 to U+00FF two
  bytes that start with 0xC2 or 0xC3, and a character above U+00FF a sequence that starts
  with a byte from 0xC4 on.
\<close>

datatype js_value =
    JSString string
  | JSNumber nat
  | JSBool bool
  | JSNull
  | JSDate nat
  | JSObject "(string \<times> js_value) list"

type_synonym js_object = "(string \<times> js_value) list"

text \<open>A nullable column read into a property: \<open>null\<close> when the column is NULL.\<close>

definition nullable :: "('a \<Rightarrow> js_value) \<Rightarrow> 'a option \<Rightarrow> js_value" where
  "nullable f v = (case v of None \<Rightarrow> JSNull | Some x \<Rightarrow> f x)"

text \<open>
  The rest pattern \<open>const { k: _, ...result } = obj\<close>: every own property of \<open>obj\<close> but
  \<open>k\<close>.
\<close>

definition rest_without :: "string \<Rightarrow> js_object \<Rightarrow> js_object" where
  "rest_without k obj = filter (\<lambda>(k', v). k' \<noteq> k) obj"

text \<open>Prisma's \<open>select: { k1: true, ... }\<close>: only the listed properties.\<close>

definition select_props :: "string list \<Rightarrow> js_object \<Rightarrow> js_object" where
  "select_props ks obj = filter (\<lambda>(k', v). k' \<in> set ks) obj"

text \<open>
  JavaScript truthiness of a \<open>string | undefined | null\<close> value, which \<open>!x\<close>,
  \<open>a || b\<close> and \<open>a && b\<close> test: undefined, null and the empty string are falsy.
\<close>

definition truthy :: "string option \<Rightarrow> bool" where
  "truthy v = (case v of None \<Rightarrow> False | Some s \<Rightarrow> s \<noteq> [])"

definition js_or :: "string option \<Rightarrow> string option \<Rightarrow> string option" where
  "js_or a b = (if truthy a then a else b)"

text \<open>
  A non-negative integer in a template literal or under \<open>toString()\<close>: its decimal
  digits.
\<close>

definition digit_char :: "nat \<Rightarrow> char" where
  "digit_char d = ''0123456789'' ! d"

fun dec :: "nat \<Rightarrow> string" where
  "dec n = (if n < 10 then [digit_char n] else dec (n div 10) @ [digit_char (n mod 10)])"

section \<open>The store: the tables of the migrations\<close>

text \<open>
  The rows of \<open>users\<close>, \<open>messages\<close> (migration src/unnamed/part_001, with the \<open>fileId\<close>
  column that src/unnamed/part_000 adds) and \<open>files\<close> (src/unnamed/part_000). A nullable
  column is an \<open>option\<close>; a timestamp is a natural number. Columns of the same name in
  two tables get a prefix: \<open>user_id\<close>, \<open>msg_id\<close> and \<open>file_id\<close> are the \<open>id\<close> columns,
  \<open>stored_fileName\<close>, \<open>file_size\<close> and \<open>file_path\<close> are \<open>fileName\<close>, \<open>size\<close> and \<open>path\<close>
  of \<open>files\<close>, and \<open>msg_type\<close> is \<open>type\<close> of \<open>messages\<close>.
\<close>

record user_row =
  user_id :: string
  email :: string
  username :: string
  password :: "string option"
  googleId :: "string option"
  avatar :: "string option"
  user_createdAt :: nat
  updatedAt :: nat

record message_row =
  msg_id :: string
  content :: string
  msg_createdAt :: nat
  isRead :: bool
  msg_type :: string
  fileName :: "string option"
  fileSize :: "nat option"
  fileType :: "string option"
  fileUrl :: "string option"
  senderId :: string
  receiverId :: string
  fileId :: "string option"

record file_row =
  file_id :: string
  originalName :: string
  stored_fileName :: string
  mimeType :: string
  file_size :: nat
  file_path :: string
  file_createdAt :: nat
  uploaderId :: string

record store =
  users :: "user_row list"
  messages :: "message_row list"
  files :: "file_row list"

text \<open>The objects the Prisma client returns for a row: one property per column.\<close>

definition user_object :: "user_row \<Rightarrow> js_object" where
  "user_object u =
     [(''id'', JSString (user_id u)),
      (''email'', JSString (email u)),
      (''username'', JSString (username u)),
      (''password'', nullable JSString (password u)),
      (''googleId'', nullable JSString (googleId u)),
      (''avatar'', nullable JSString (avatar u)),
      (''createdAt'', JSDate (user_createdAt u)),
      (''updatedAt'', JSDate (updatedAt u))]"

definition message_object :: "message_row \<Rightarrow> js_object" where
  "message_object m =
     [(''id'', JSString (msg_id m)),
      (''content'', JSString (content m)),
      (''createdAt'', JSDate (msg_createdAt m)),
      (''isRead'', JSBool (isRead m)),
      (''type'', JSString (msg_type m)),
      (''fileName'', nullable JSString (fileName m)),
      (''fileSize'', nullable JSNumber (fileSize m)),
      (''fileType'', nullable JSString (fileType m)),
      (''fileUrl'', nullable JSString (fileUrl m)),
      (''senderId'', JSString (senderId m)),
      (''receiverId'', JSString (receiverId m)),
      (''fileId'', nullable JSString (fileId m))]"

text \<open>
  What a request cannot choose: the \<open>cuid()\<close> the client generates for a new row, the
  clock behind \<open>CURRENT_TIMESTAMP\<close> and \<open>@updatedAt\<close>, a failure of the store's write that
  no constraint explains (each request below writes at most once), and the exception, if
  any, that \<open>ChatGateway.notifyFileUploadComplete\<close> throws (the gateway is not among the
  sources). Reads of the store are taken to answer.
\<close>

record env =
  new_id :: string
  now :: nat
  write_fault :: "prisma_error option"
  notify_fault :: "string option"

subsection \<open>Queries\<close>

text \<open>\<open>prisma.user.findUnique({ where: { email } })\<close>, and the same by the other unique columns.\<close>

definition user_findUnique_email :: "store \<Rightarrow> string \<Rightarrow> user_row option" where
  "user_findUnique_email s e = find (\<lambda>u. email u = e) (users s)"

definition user_findUnique_googleId :: "store \<Rightarrow> string \<Rightarrow> user_row option" where
  "user_findUnique_googleId s g = find (\<lambda>u. googleId u = Some g) (users s)"

definition user_findUnique_username :: "store \<Rightarrow> string \<Rightarrow> user_row option" where
  "user_findUnique_username s n = find (\<lambda>u. username u = n) (users s)"

definition user_findUnique_id :: "store \<Rightarrow> string \<Rightarrow> user_row option" where
  "user_findUnique_id s i = find (\<lambda>u. user_id u = i) (users s)"

text \<open>\<open>prisma.file.findUnique({ where: { id } })\<close>.\<close>

definition file_findUnique :: "store \<Rightarrow> string \<Rightarrow> file_row option" where
  "file_findUnique s i = find (\<lambda>f. file_id f = i) (files s)"

text \<open>
  \<open>prisma.message.findFirst({ where: { fileId, OR: [{ senderId: userId }, { receiverId:
  userId }] } })\<close> (file.controller.ts, lines 236-241) and the same query on \<open>fileUrl\<close>
  (files.controller.ts, lines 157-165).
\<close>

definition message_findFirst_fileId :: "store \<Rightarrow> string \<Rightarrow> string \<Rightarrow> message_row option" where
  "message_findFirst_fileId s fid userId =
     find (\<lambda>m. fileId m = Some fid \<and> (senderId m = userId \<or> receiverId m = userId)) (messages s)"

definition message_findFirst_fileUrl :: "store \<Rightarrow> string \<Rightarrow> string \<Rightarrow> message_row option" where
  "message_findFirst_fileUrl s url userId =
     find (\<lambda>m. fileUrl m = Some url \<and> (senderId m = userId \<or> receiverId m = userId)) (messages s)"

subsection \<open>Writes\<close>

text \<open>
  \<open>prisma.message.create({ data })\<close>. The columns with a default may be left out of
  \<open>data\<close>: \<open>id\<close> (\<open>cuid()\<close>), \<open>createdAt\<close> (\<open>CURRENT_TIMESTAMP\<close>), \<open>isRead\<close>
  (\<open>DEFAULT false\<close>) and \<open>type\<close> (\<open>DEFAULT 'text'\<close>). The write is refused when the
  primary key is taken (\<open>messages_pkey\<close>) or a foreign key has no row
  (\<open>messages_senderId_fkey\<close>, \<open>messages_receiverId_fkey\<close>, \<open>messages_fileId_fkey\<close>).
\<close>

record message_data =
  data_content :: string
  data_isRead :: "bool option"
  data_type :: "string option"
  data_fileName :: "string option"
  data_fileSize :: "nat option"
  data_fileType :: "string option"
  data_fileUrl :: "string option"
  data_senderId :: string
  data_receiverId :: string
  data_fileId :: "string option"

definition message_create :: "env \<Rightarrow> store \<Rightarrow> message_data \<Rightarrow> prisma_error + (message_row \<times> store)" where
  "message_create e s d =
     (case write_fault e of
        Some err \<Rightarrow> Inl err
      | None \<Rightarrow>
          if new_id e \<in> msg_id ` set (messages s) then Inl (UniqueConstraintFailed ''messages_pkey'')
          else if data_senderId d \<notin> user_id ` set (users s)
            then Inl (ForeignKeyConstraintFailed ''messages_senderId_fkey'')
          else if data_receiverId d \<notin> user_id ` set (users s)
            then Inl (ForeignKeyConstraintFailed ''messages_receiverId_fkey'')
          else if (case data_fileId d of None \<Rightarrow> False | Some f \<Rightarrow> f \<notin> file_id ` set (files s))
            then Inl (ForeignKeyConstraintFailed ''messages_fileId_fkey'')
          else
            (let m = \<lparr> msg_id = new_id e,
                       content = data_content d,
                       msg_createdAt = now e,
                       isRead = (case data_isRead d of None \<Rightarrow> False | Some b \<Rightarrow> b),
                       msg_type = (case data_type d of None \<Rightarrow> ''text'' | Some t \<Rightarrow> t),
                       fileName = data_fileName d,
                       fileSize = data_fileSize d,
                       fileType = data_fileType d,
                       fileUrl = data_fileUrl d,
                       senderId = data_senderId d,
                       receiverId = data_receiverId d,
                       fileId = data_fileId d \<rparr>
             in Inr (m, s\<lparr>messages := messages s @ [m]\<rparr>)))"

text \<open>
  \<open>prisma.file.create({ data })\<close>: \<open>id\<close> and \<open>createdAt\<close> by default; refused on
  \<open>files_pkey\<close> and \<open>files_uploaderId_fkey\<close>.
\<close>

definition file_create ::
  "env \<Rightarrow> store \<Rightarrow> string \<Rightarrow> string \<Rightarrow> string \<Rightarrow> nat \<Rightarrow> string \<Rightarrow> string
     \<Rightarrow> prisma_error + (file_row \<times> store)" where
  "file_create e s d_originalName d_fileName d_mimeType d_size d_path d_uploaderId =
     (case write_fault e of
        Some err \<Rightarrow> Inl err
      | None \<Rightarrow>
          if new_id e \<in> file_id ` set (files s) then Inl (UniqueConstraintFailed ''files_pkey'')
          else if d_uploaderId \<notin> user_id ` set (users s)
            then Inl (ForeignKeyConstraintFailed ''files_uploaderId_fkey'')
          else
            (let f = \<lparr> file_id = new_id e,
                       originalName = d_originalName,
                       stored_fileName = d_fileName,
                       mimeType = d_mimeType,
                       file_size = d_size,
                       file_path = d_path,
                       file_createdAt = now e,
                       uploaderId = d_uploaderId \<rparr>
             in Inr (f, s\<lparr>files := files s @ [f]\<rparr>)))"

text \<open>
  \<open>prisma.user.create({ data })\<close>: \<open>id\<close> and \<open>createdAt\<close> by default, \<open>updatedAt\<close> by the
  client; refused on \<open>users_pkey\<close> and on the unique indexes \<open>users_email_key\<close>,
  \<open>users_username_key\<close> and \<open>users_googleId_key\<close> (a NULL \<open>googleId\<close> collides with
  nothing).
\<close>

definition user_create ::
  "env \<Rightarrow> store \<Rightarrow> string \<Rightarrow> string \<Rightarrow> string option \<Rightarrow> string option \<Rightarrow> string option
     \<Rightarrow> prisma_error + (user_row \<times> store)" where
  "user_create e s d_email d_username d_password d_googleId d_avatar =
     (case write_fault e of
        Some err \<Rightarrow> Inl err
      | None \<Rightarrow>
          if new_id e \<in> user_id ` set (users s) then Inl (UniqueConstraintFailed ''users_pkey'')
          else if d_email \<in> email ` set (users s) then Inl (UniqueConstraintFailed ''users_email_key'')
          else if d_username \<in> username ` set (users s)
            then Inl (UniqueConstraintFailed ''users_username_key'')
          else if (case d_googleId of None \<Rightarrow> False | Some g \<Rightarrow> Some g \<in> googleId ` set (users s))
            then Inl (UniqueConstraintFailed ''users_googleId_key'')
          else
            (let u = \<lparr> user_id = new_id e,
                       email = d_email,
                       username = d_username,
                       password = d_password,
                       googleId = d_googleId,
                       avatar = d_avatar,
                       user_createdAt = now e,
                       updatedAt = now e \<rparr>
             in Inr (u, s\<lparr>users := users s @ [u]\<rparr>)))"

text \<open>
  \<open>prisma.user.update({ where: { email }, data: { googleId, avatar } })\<close>: the row with
  that email gets the new \<open>googleId\<close>, the new \<open>avatar\<close> when one is given (an
  \<open>undefined\<close> property of \<open>data\<close> leaves its column alone) and a fresh \<open>updatedAt\<close>.
  Refused when no row has the email, or another row holds the \<open>googleId\<close>.
\<close>

definition user_update_by_email ::
  "env \<Rightarrow> store \<Rightarrow> string \<Rightarrow> string \<Rightarrow> string option \<Rightarrow> prisma_error + (user_row \<times> store)" where
  "user_update_by_email e s w_email d_googleId d_avatar =
     (case write_fault e of
        Some err \<Rightarrow> Inl err
      | None \<Rightarrow>
          (case user_findUnique_email s w_email of
             None \<Rightarrow> Inl RecordNotFound
           | Some u \<Rightarrow>
               if \<exists>v \<in> set (users s). googleId v = Some d_googleId \<and> email v \<noteq> w_email
               then Inl (UniqueConstraintFailed ''users_googleId_key'')
               else
                 (let u' = u\<lparr> googleId := Some d_googleId,
                              avatar := (case d_avatar of None \<Rightarrow> avatar u | Some a \<Rightarrow> Some a),
                              updatedAt := now e \<rparr>
                  in Inr (u', s\<lparr>users := map (\<lambda>v. if email v = w_email then u' else v) (users s)\<rparr>))))"

section \<open>The world of a request\<close>

text \<open>
  A handler runs against the store, the server's disk (a path has its bytes, or no file),
  the working directory of the process, and the real-time gateway. The effects whose
  order matters are logged in \<open>trace\<close> in the order the handler performs them: a message
  row written, the call of \<open>chatGateway.notifyFileUploadComplete(message)\<close>, a file
  unlinked.
\<close>

datatype effect =
    Persisted message_row
  | NotifyFileUploadComplete js_object
  | Unlinked string

record world =
  db :: store
  disk :: "string \<rightharpoonup> string"
  cwd :: string
  trace :: "effect list"

text \<open>\<open>Express.Multer.File\<close>, as the disk storage engine fills it.\<close>

record multer_file =
  originalname :: string
  filename :: string
  mimetype :: string
  upload_size :: nat
  upload_path :: string

text \<open>\<open>req.user\<close>: the JWT payload the guard attached. Either property may be missing.\<close>

record jwt_payload =
  sub :: "string option"
  payload_id :: "string option"

text \<open>\<open>req.user?.sub || req.user?.id\<close>.\<close>

definition request_userId :: "jwt_payload option \<Rightarrow> string option" where
  "request_userId user =
     (case user of None \<Rightarrow> None | Some u \<Rightarrow> js_or (sub u) (payload_id u))"

text \<open>\<open>if (fs.existsSync(p)) { fs.unlinkSync(p); }\<close>; the unlink is taken to succeed.\<close>

definition unlink_if_exists :: "string \<Rightarrow> world \<Rightarrow> world" where
  "unlink_if_exists p w =
     (if disk w p \<noteq> None then w\<lparr>disk := (disk w)(p := None), trace := trace w @ [Unlinked p]\<rparr>
      else w)"

text \<open>What a download handler wrote to the response: the headers set, then the bytes piped.\<close>

datatype header_value = HString string | HNumber nat

record file_response =
  headers :: "(string \<times> header_value) list"
  body :: string

text \<open>
  \<open>res.setHeader(name, value)\<close> of Node's \<open>http\<close> module throws a \<open>TypeError\<close> with
  code \<open>ERR_INVALID_CHAR\<close> unless every character of the value is a tab or lies in
  U+0020-U+007E or U+0080-U+00FF: a control character, U+007F and every character above
  U+00FF are refused. On the bytes of the UTF-8 encoding: no byte below 0x20 but the tab,
  no 0x7F, and no byte from 0xC4 on. A number is sent as its digits. The header names
  the handlers use are constants and valid.
\<close>

definition header_byte_ok :: "char \<Rightarrow> bool" where
  "header_byte_ok c =
     (let n = (of_char c :: nat) in (n = 9 \<or> 32 \<le> n) \<and> n \<noteq> 127 \<and> n < 196)"

definition header_string_ok :: "string \<Rightarrow> bool" where
  "header_string_ok v = list_all header_byte_ok v"

fun header_value_ok :: "header_value \<Rightarrow> bool" where
  "header_value_ok (HString v) = header_string_ok v"
| "header_value_ok (HNumber n) = True"

definition setHeader ::
  "string \<Rightarrow> header_value \<Rightarrow> (string \<times> header_value) list
     \<Rightarrow> exn + (string \<times> header_value) list" where
  "setHeader name v hs =
     (if header_value_ok v then Inr (hs @ [(name, v)]) else Inl (TypeError ''ERR_INVALID_CHAR''))"

text \<open>Consecutive \<open>res.setHeader\<close> calls: the first that throws ends the sequence.\<close>

fun setHeaders ::
  "(string \<times> header_value) list \<Rightarrow> (string \<times> header_value) list
     \<Rightarrow> exn + (string \<times> header_value) list" where
  "setHeaders [] hs = Inr hs"
| "setHeaders ((name, v) # rest) hs =
     (case setHeader name v hs of Inl err \<Rightarrow> Inl err | Inr hs' \<Rightarrow> setHeaders rest hs')"

text \<open>
  The \<open>catch\<close> blocks of the download handlers (file.controller.ts, lines 173-179;
  files.controller.ts, lines 200-206): a \<open>NotFoundException\<close> or a
  \<open>BadRequestException\<close> is rethrown, every other error becomes
  \<open>NotFoundException('File not found')\<close>. The \<open>catch\<close> of \<open>getFileInfo\<close>
  (file.controller.ts, lines 216-222) rethrows a \<open>NotFoundException\<close> only.
\<close>

definition catch_download :: "exn \<Rightarrow> exn" where
  "catch_download error =
     (case error of
        NotFoundException msg \<Rightarrow> error
      | BadRequestException msg \<Rightarrow> error
      | _ \<Rightarrow> NotFoundException ''File not found'')"

definition catch_info :: "exn \<Rightarrow> exn" where
  "catch_info error =
     (case error of
        NotFoundException msg \<Rightarrow> error
      | _ \<Rightarrow> NotFoundException ''File not found'')"

text \<open>\<open>path.join(a, b)\<close>, without its normalisation of dots and doubled separators.\<close>

definition path_join :: "string \<Rightarrow> string \<Rightarrow> string" where
  "path_join a b = a @ ''/'' @ b"

definition dquote :: char where
  "dquote = CHR 0x22"

text \<open>The template literal \<open>attachment; filename="${name}"\<close> of both download handlers.\<close>

definition content_disposition :: "string \<Rightarrow> string" where
  "content_disposition name = ''attachment; filename='' @ [dquote] @ name @ [dquote]"

section \<open>FileController: file.controller.ts\<close>

text \<open>
  \<open>checkFileAccess\<close> (lines 225-244). \<open>file?.uploaderId === userId\<close> is false when no
  file has the id: \<open>undefined\<close> is not a string.
\<close>

definition checkFileAccess :: "store \<Rightarrow> string \<Rightarrow> string \<Rightarrow> bool" where
  "checkFileAccess s fid userId =
     (let file = file_findUnique s fid in
      if (case file of None \<Rightarrow> False | Some f \<Rightarrow> uploaderId f = userId) then True
      else
        (let messageWithFile = message_findFirst_fileId s fid userId
         in messageWithFile \<noteq> None))"

text \<open>The \<open>uploader\<close> relation as the handlers include it: \<open>select: { id, username, avatar }\<close>.\<close>

definition include_uploader :: "store \<Rightarrow> file_row \<Rightarrow> js_value" where
  "include_uploader s f =
     (case user_findUnique_id s (uploaderId f) of
        None \<Rightarrow> JSNull
      | Some u \<Rightarrow> JSObject (select_props [''id'', ''username'', ''avatar''] (user_object u)))"

text \<open>
  \<open>uploadFile\<close> (lines 89-129), after the interceptor: \<open>file\<close> is undefined when no file
  came with the request; \<open>userId\<close> is \<open>req.user.sub\<close>. Any failure of the write is
  reported as a \<open>BadRequestException\<close>.
\<close>

definition FileController_uploadFile ::
  "env \<Rightarrow> multer_file option \<Rightarrow> string \<Rightarrow> world \<Rightarrow> (exn + js_object) \<times> world" where
  "FileController_uploadFile e file userId w =
     (case file of
        None \<Rightarrow> (Inl (BadRequestException ''No file uploaded''), w)
      | Some f \<Rightarrow>
          (case file_create e (db w) (originalname f) (filename f) (mimetype f) (upload_size f)
                  (upload_path f) userId of
             Inl err \<Rightarrow> (Inl (BadRequestException ''Failed to upload file''), w)
           | Inr (fileRecord, s') \<Rightarrow>
               (Inr [(''id'', JSString (file_id fileRecord)),
                     (''originalName'', JSString (originalName fileRecord)),
                     (''fileName'', JSString (stored_fileName fileRecord)),
                     (''mimeType'', JSString (mimeType fileRecord)),
                     (''size'', JSNumber (file_size fileRecord)),
                     (''createdAt'', JSDate (file_createdAt fileRecord)),
                     (''uploader'', include_uploader s' fileRecord)],
                w\<lparr>db := s'\<rparr>)))"

text \<open>
  \<open>getFile\<close> (lines 132-180): \<open>getFile_try\<close> is the body of the \<open>try\<close> block, where a
  refused header value throws as well; \<open>getFile\<close> passes what the body threw through
  the \<open>catch\<close>.
\<close>

definition getFile_try :: "string \<Rightarrow> string \<Rightarrow> world \<Rightarrow> exn + file_response" where
  "getFile_try fid userId w =
     (case file_findUnique (db w) fid of
        None \<Rightarrow> Inl (NotFoundException ''File not found'')
      | Some file \<Rightarrow>
          (let hasAccess = checkFileAccess (db w) fid userId in
           if \<not> hasAccess then Inl (NotFoundException ''File not found'')
           else
             (let filePath = path_join (cwd w) (file_path file) in
              case disk w filePath of
                None \<Rightarrow> Inl (NotFoundException ''File not found on disk'')
              | Some bytes \<Rightarrow>
                  (case setHeaders
                          [(''Content-Type'', HString (mimeType file)),
                           (''Content-Disposition'',
                              HString (content_disposition (originalName file))),
                           (''Content-Length'', HNumber (file_size file))] [] of
                     Inl err \<Rightarrow> Inl err
                   | Inr hs \<Rightarrow> Inr \<lparr> headers = hs, body = bytes \<rparr>))))"

definition getFile :: "string \<Rightarrow> string \<Rightarrow> world \<Rightarrow> exn + file_response" where
  "getFile fid userId w =
     (case getFile_try fid userId w of
        Inl error \<Rightarrow> Inl (catch_download error)
      | Inr response \<Rightarrow> Inr response)"

text \<open>\<open>getFileInfo\<close> (lines 183-223), in the same two parts.\<close>

definition getFileInfo_try :: "string \<Rightarrow> string \<Rightarrow> world \<Rightarrow> exn + js_object" where
  "getFileInfo_try fid userId w =
     (case file_findUnique (db w) fid of
        None \<Rightarrow> Inl (NotFoundException ''File not found'')
      | Some file \<Rightarrow>
          (let hasAccess = checkFileAccess (db w) fid userId in
           if \<not> hasAccess then Inl (NotFoundException ''File not found'')
           else
             Inr [(''id'', JSString (file_id file)),
                  (''originalName'', JSString (originalName file)),
                  (''mimeType'', JSString (mimeType file)),
                  (''size'', JSNumber (file_size file)),
                  (''createdAt'', JSDate (file_createdAt file)),
                  (''uploader'', include_uploader (db w) file)]))"

definition getFileInfo :: "string \<Rightarrow> string \<Rightarrow> world \<Rightarrow> exn + js_object" where
  "getFileInfo fid userId w =
     (case getFileInfo_try fid userId w of
        Inl error \<Rightarrow> Inl (catch_info error)
      | Inr info \<Rightarrow> Inr info)"

section \<open>FilesController: files.controller.ts\<close>

text \<open>
  The created message as \<open>include: { sender: { select }, receiver: { select } }\<close> returns
  it: the row's properties, then the two relations with the selected properties.
\<close>

definition include_user :: "store \<Rightarrow> string \<Rightarrow> js_value" where
  "include_user s uid =
     (case user_findUnique_id s uid of
        None \<Rightarrow> JSNull
      | Some u \<Rightarrow> JSObject (select_props [''id'', ''username'', ''email'', ''avatar''] (user_object u)))"

definition message_with_users :: "store \<Rightarrow> message_row \<Rightarrow> js_object" where
  "message_with_users s m =
     message_object m @
       [(''sender'', include_user s (senderId m)), (''receiver'', include_user s (receiverId m))]"

text \<open>
  The \<open>data\<close> of the write in \<open>uploadFile\<close> (lines 88-97): a message of type \<open>file\<close>
  from the sender to the receiver, with the upload's name, size, MIME type and the
  relative download URL. \<open>isRead\<close> and \<open>fileId\<close> are not given.
\<close>

definition upload_message_data :: "multer_file \<Rightarrow> string \<Rightarrow> string \<Rightarrow> message_data" where
  "upload_message_data f senderId' receiverId' =
     \<lparr> data_content = ''Sent a file: '' @ originalname f,
       data_isRead = None,
       data_type = Some ''file'',
       data_fileName = Some (originalname f),
       data_fileSize = Some (upload_size f),
       data_fileType = Some (mimetype f),
       data_fileUrl = Some (''/files/download/'' @ filename f),
       data_senderId = senderId',
       data_receiverId = receiverId',
       data_fileId = None \<rparr>"

text \<open>
  \<open>uploadFile\<close> (lines 53-134), after the interceptor stored the upload at \<open>file.path\<close>.
  \<open>receiverId'\<close> is \<open>body.receiverId\<close> and \<open>senderId'\<close> the source's \<open>senderId\<close>
  (the unprimed names are the columns). The \<open>try\<close> block holds the write and the
  notification; its \<open>catch\<close> unlinks the upload and rethrows the error it caught.
\<close>

definition FilesController_uploadFile ::
  "env \<Rightarrow> multer_file option \<Rightarrow> string option \<Rightarrow> jwt_payload option \<Rightarrow> world
     \<Rightarrow> (exn + js_object) \<times> world" where
  "FilesController_uploadFile e file receiverId' user w =
     (case file of
        None \<Rightarrow> (Inl (BadRequestException ''No file uploaded''), w)
      | Some f \<Rightarrow>
          (let senderId' = request_userId user in
           if \<not> truthy senderId'
             then (Inl (BadRequestException ''Invalid user authentication''),
                   unlink_if_exists (upload_path f) w)
           else if \<not> truthy receiverId'
             then (Inl (BadRequestException ''Receiver ID is required''),
                   unlink_if_exists (upload_path f) w)
           else
             (case message_create e (db w)
                     (upload_message_data f (the senderId') (the receiverId')) of
                Inl err \<Rightarrow> (Inl (PrismaClientError err), unlink_if_exists (upload_path f) w)
              | Inr (m, s') \<Rightarrow>
                  (let w1 = w\<lparr>db := s', trace := trace w @ [Persisted m]\<rparr>;
                       message = message_with_users s' m;
                       w2 = w1\<lparr>trace := trace w1 @ [NotifyFileUploadComplete message]\<rparr>
                   in case notify_fault e of
                        Some g \<Rightarrow> (Inl (GatewayError g), unlink_if_exists (upload_path f) w2)
                      | None \<Rightarrow>
                          (Inr [(''message'', JSString ''File uploaded successfully''),
                                (''data'', JSObject message)],
                           w2)))))"

text \<open>
  \<open>downloadFile\<close> (lines 137-207). The checks of the user id and of the file on disk
  come before the \<open>try\<close> block; \<open>downloadFile_try\<close> is its body, given the user id, the
  path and the bytes found there. \<open>message.fileName\<close> in the template literal prints
  \<open>null\<close> when the column is NULL.
\<close>

definition downloadFile_try :: "string \<Rightarrow> string \<Rightarrow> string \<Rightarrow> world \<Rightarrow> exn + file_response" where
  "downloadFile_try fname userId bytes w =
     (case message_findFirst_fileUrl (db w) (''/files/download/'' @ fname) userId of
        None \<Rightarrow> Inl (NotFoundException ''File not found or access denied'')
      | Some message \<Rightarrow>
          (case setHeaders
                  [(''Content-Type'', HString ''application/octet-stream''),
                   (''Content-Disposition'',
                      HString (content_disposition
                        (case fileName message of None \<Rightarrow> ''null'' | Some n \<Rightarrow> n))),
                   (''Content-Length'', HString (dec (length bytes))),
                   (''Cache-Control'', HString ''no-cache''),
                   (''Accept-Ranges'', HString ''bytes''),
                   (''Access-Control-Allow-Origin'', HString ''http://localhost:3000''),
                   (''Access-Control-Allow-Credentials'', HString ''true''),
                   (''Access-Control-Expose-Headers'',
                      HString ''Content-Disposition, Content-Length'')] [] of
             Inl err \<Rightarrow> Inl err
           | Inr hs \<Rightarrow> Inr \<lparr> headers = hs, body = bytes \<rparr>))"

definition downloadFile :: "string \<Rightarrow> jwt_payload option \<Rightarrow> world \<Rightarrow> exn + file_response" where
  "downloadFile fname user w =
     (let userId = request_userId user in
      if \<not> truthy userId then Inl (BadRequestException ''Invalid user authentication'')
      else
        (let filePath = ''./uploads/'' @ fname in
         case disk w filePath of
           None \<Rightarrow> Inl (NotFoundException ''File not found'')
         | Some bytes \<Rightarrow>
             (case downloadFile_try fname (the userId) bytes w of
                Inl error \<Rightarrow> Inl (catch_download error)
              | Inr response \<Rightarrow> Inr response)))"

section \<open>The authentication services\<close>

subsection \<open>ManualAuthService: src/unnamed/part_003\<close>

text \<open>
  \<open>validateCredentials\<close> (lines 25-32). \<open>bcrypt.compare(password, hash)\<close> belongs to the
  bcryptjs library and is a parameter. The condition \<open>user && user.password && await
  bcrypt.compare(...)\<close> stops at the first falsy operand: no user, then a NULL or empty
  \<open>password\<close> column, then a hash that does not match. \<open>email'\<close> and \<open>password'\<close> are the
  source's \<open>email\<close> and \<open>password\<close> (the unprimed names are the columns).
\<close>

definition validateCredentials ::
  "(string \<Rightarrow> string \<Rightarrow> bool) \<Rightarrow> store \<Rightarrow> string \<Rightarrow> string \<Rightarrow> js_object option" where
  "validateCredentials bcrypt_compare s email' password' =
     (case user_findUnique_email s email' of
        None \<Rightarrow> None
      | Some user \<Rightarrow>
          (case password user of
             None \<Rightarrow> None
           | Some hash \<Rightarrow>
               if hash \<noteq> [] \<and> bcrypt_compare password' hash
               then Some (rest_without ''password'' (user_object user))
               else None))"

text \<open>
  \<open>createUser\<close> (lines 34-41). \<open>bcrypt.hash(password, 10)\<close> is a parameter. An error of
  the write is not caught.
\<close>

definition createUser ::
  "(string \<Rightarrow> nat \<Rightarrow> string) \<Rightarrow> env \<Rightarrow> string \<Rightarrow> string \<Rightarrow> string \<Rightarrow> store
     \<Rightarrow> (exn + js_object) \<times> store" where
  "createUser bcrypt_hash e email' username' password' s =
     (let hashedPassword = bcrypt_hash password' 10 in
      case user_create e s email' username' (Some hashedPassword) None None of
        Inl err \<Rightarrow> (Inl (PrismaClientError err), s)
      | Inr (user, s') \<Rightarrow> (Inr (rest_without ''password'' (user_object user)), s'))"

subsection \<open>GoogleAuthService: auth.service.ts, lines 52-83\<close>

text \<open>The \<open>GoogleUser\<close> interface (auth.service.ts, lines 8-13); \<open>avatar\<close> is optional.\<close>

record google_user =
  g_googleId :: string
  g_email :: string
  g_username :: string
  g_avatar :: "string option"

text \<open>
  The loop of lines 69-74:
  \<^verbatim>\<open>while (await findUnique({ where: { username: uniqueUsername } })) {
    uniqueUsername = `${username}${counter}`; counter++; }\<close>
  with \<open>base\<close> for the source's \<open>username\<close>. It ends because the table is finite and the
  candidates \<open>base1\<close>, \<open>base2\<close>, ... are all different: the measure counts the candidates
  from \<open>counter\<close> on that are taken, and the current one if it is taken.
\<close>

definition taken_from :: "store \<Rightarrow> string \<Rightarrow> nat \<Rightarrow> nat set" where
  "taken_from s base c = {k. c \<le> k \<and> base @ dec k \<in> username ` set (users s)}"

declare dec.simps [simp del]

lemma digit_char_inj: "a < 10 \<Longrightarrow> b < 10 \<Longrightarrow> digit_char a = digit_char b \<Longrightarrow> a = b"
  by (simp add: digit_char_def nth_eq_iff_index_eq)

lemma dec_nonempty: "dec n \<noteq> []"
  by (subst dec.simps) simp

lemma dec_small: "n < 10 \<Longrightarrow> dec n = [digit_char n]"
  by (subst dec.simps) simp

lemma dec_large: "\<not> n < 10 \<Longrightarrow> dec n = dec (n div 10) @ [digit_char (n mod 10)]"
  by (subst dec.simps) simp

lemma dec_inj: "dec n = dec m \<Longrightarrow> n = m"
proof (induction n arbitrary: m rule: dec.induct)
  case (1 n)
  show ?case
  proof (cases "n < 10")
    case True
    note n = this
    show ?thesis
    proof (cases "m < 10")
      case True
      with n "1.prems" show ?thesis by (simp add: dec_small digit_char_inj)
    next
      case False
      with n "1.prems" show ?thesis
        by (simp add: dec_small dec_large dec_nonempty dec_nonempty [symmetric])
    qed
  next
    case False
    note n = this
    show ?thesis
    proof (cases "m < 10")
      case True
      with n "1.prems" show ?thesis
        by (simp add: dec_small dec_large dec_nonempty dec_nonempty [symmetric])
    next
      case False
      with n "1.prems" have e: "dec (n div 10) = dec (m div 10)"
        and d: "digit_char (n mod 10) = digit_char (m mod 10)"
        by (simp_all add: dec_large)
      from "1.IH" [OF n e] have "n div 10 = m div 10" .
      moreover from d have "n mod 10 = m mod 10" by (intro digit_char_inj) simp_all
      ultimately show ?thesis by (metis div_mult_mod_eq)
    qed
  qed
qed

lemma finite_taken_from: "finite (taken_from s base c)"
proof -
  have "inj (\<lambda>k. base @ dec k)"
    by (rule injI) (simp add: dec_inj)
  then have "finite ((\<lambda>k. base @ dec k) -` (username ` set (users s)))"
    by (intro finite_vimageI) simp_all
  moreover have "taken_from s base c \<subseteq> (\<lambda>k. base @ dec k) -` (username ` set (users s))"
    by (auto simp: taken_from_def)
  ultimately show ?thesis by (rule rev_finite_subset)
qed

lemma taken_from_step:
  "taken_from s base c =
     (if base @ dec c \<in> username ` set (users s) then insert c (taken_from s base (Suc c))
      else taken_from s base (Suc c))"
  by (auto simp: taken_from_def Suc_le_eq le_less)

lemma not_in_taken_from_Suc: "c \<notin> taken_from s base (Suc c)"
  by (simp add: taken_from_def)

lemma user_findUnique_username_None:
  "user_findUnique_username s n = None \<longleftrightarrow> n \<notin> username ` set (users s)"
  by (auto simp: user_findUnique_username_def find_None_iff)

function uniqueUsername_loop :: "store \<Rightarrow> string \<Rightarrow> string \<Rightarrow> nat \<Rightarrow> string" where
  "uniqueUsername_loop s base uniqueUsername counter =
     (if user_findUnique_username s uniqueUsername \<noteq> None
      then uniqueUsername_loop s base (base @ dec counter) (counter + 1)
      else uniqueUsername)"
  by pat_completeness auto
termination
proof (relation "measure (\<lambda>(s, base, u, c).
         card (taken_from s base c) + (if u \<in> username ` set (users s) then 1 else 0))")
  show "wf (measure (\<lambda>(s, base, u, c).
         card (taken_from s base c) + (if u \<in> username ` set (users s) then 1 else 0)))"
    by simp
next
  fix s :: store and base uniqueUsername :: string and counter :: nat
  assume "user_findUnique_username s uniqueUsername \<noteq> None"
  then have u: "uniqueUsername \<in> username ` set (users s)"
    by (simp add: user_findUnique_username_None)
  have "card (taken_from s base (counter + 1)) +
          (if base @ dec counter \<in> username ` set (users s) then 1 else 0)
        = card (taken_from s base counter)"
    by (subst (2) taken_from_step)
       (simp add: finite_taken_from not_in_taken_from_Suc)
  with u show "((s, base, base @ dec counter, counter + 1), (s, base, uniqueUsername, counter))
        \<in> measure (\<lambda>(s, base, u, c).
         card (taken_from s base c) + (if u \<in> username ` set (users s) then 1 else 0))"
    by simp
qed

declare uniqueUsername_loop.simps [simp del]

text \<open>
  \<open>validateGoogleUser\<close> (lines 56-83): the user with the Google id; else the user with
  the email, linked to the Google id; else a new user under a free username. The last
  line strips \<open>password\<close> whichever branch found the user. An error of a write is not
  caught.
\<close>

definition validateGoogleUser ::
  "env \<Rightarrow> google_user \<Rightarrow> store \<Rightarrow> (exn + js_object) \<times> store" where
  "validateGoogleUser e googleUser s =
     (case user_findUnique_googleId s (g_googleId googleUser) of
        Some user \<Rightarrow> (Inr (rest_without ''password'' (user_object user)), s)
      | None \<Rightarrow>
          (case user_findUnique_email s (g_email googleUser) of
             Some _ \<Rightarrow>
               (case user_update_by_email e s (g_email googleUser) (g_googleId googleUser)
                       (g_avatar googleUser) of
                  Inl err \<Rightarrow> (Inl (PrismaClientError err), s)
                | Inr (user, s') \<Rightarrow> (Inr (rest_without ''password'' (user_object user)), s'))
           | None \<Rightarrow>
               (let uniqueUsername =
                      uniqueUsername_loop s (g_username googleUser) (g_username googleUser) 1
                in case user_create e s (g_email googleUser) uniqueUsername None
                          (Some (g_googleId googleUser)) (g_avatar googleUser) of
                     Inl err \<Rightarrow> (Inl (PrismaClientError err), s)
                   | Inr (user, s') \<Rightarrow> (Inr (rest_without ''password'' (user_object user)), s'))))"

section \<open>Marking a message read\<close>

text \<open>
  Modelled from the spec: \<open>markRead(messageId, readerId)\<close> of the Message Router, which is
  not among the sources (no file under src/ updates a message). The spec: "\<open>markRead\<close>
  flips \<open>isRead\<close>", a message is "mutated only to flip \<open>isRead\<close> on
  delivery/acknowledgement", and "\<open>isRead\<close> transitions false\<rightarrow>true only". The
  read-receipt event it emits is no part of the store.
\<close>

definition markRead :: "string \<Rightarrow> string \<Rightarrow> store \<Rightarrow> store" where
  "markRead messageId readerId s =
     s\<lparr>messages := map (\<lambda>m. if msg_id m = messageId then m\<lparr>isRead := True\<rparr> else m) (messages s)\<rparr>"

section \<open>Requests\<close>

text \<open>
  The operations on the store: one request per handler of the sources, and \<open>MarkRead\<close>.
  \<open>handle\<close> gives the world after a request, whatever the handler answered.
\<close>

datatype request =
    FileUpload "multer_file option" string
  | GetFile string string
  | GetFileInfo string string
  | RelayUpload "multer_file option" "string option" "jwt_payload option"
  | Download string "jwt_payload option"
  | ValidateCredentials string string
  | CreateUser string string string
  | ValidateGoogleUser google_user
  | MarkRead string string

fun handle :: "(string \<Rightarrow> nat \<Rightarrow> string) \<Rightarrow> env \<Rightarrow> request \<Rightarrow> world \<Rightarrow> world" where
  "handle h e (FileUpload file userId) w = snd (FileController_uploadFile e file userId w)"
| "handle h e (GetFile fid userId) w = w"
| "handle h e (GetFileInfo fid userId) w = w"
| "handle h e (RelayUpload file r user) w = snd (FilesController_uploadFile e file r user w)"
| "handle h e (Download fname user) w = w"
| "handle h e (ValidateCredentials em pw) w = w"
| "handle h e (CreateUser em un pw) w = w\<lparr>db := snd (createUser h e em un pw (db w))\<rparr>"
| "handle h e (ValidateGoogleUser g) w = w\<lparr>db := snd (validateGoogleUser e g (db w))\<rparr>"
| "handle h e (MarkRead messageId readerId) w = w\<lparr>db := markRead messageId readerId (db w)\<rparr>"

text \<open>A run: the requests in their order, each with what it could not choose.\<close>

fun run :: "(string \<Rightarrow> nat \<Rightarrow> string) \<Rightarrow> (env \<times> request) list \<Rightarrow> world \<Rightarrow> world" where
  "run h [] w = w"
| "run h ((e, r) # rs) w = run h rs (handle h e r w)"

text \<open>
  How the stored messages may differ between two moments: \<open>only_marked_read m m'\<close> when
  the later row \<open>m'\<close> is the earlier row \<open>m\<close>, or \<open>m\<close> was unread and \<open>m'\<close> is \<open>m\<close> marked
  read; \<open>messages_evolve ms ms'\<close> when every earlier message is still at its place in
  the later table, changed at most so.
\<close>

definition only_marked_read :: "message_row \<Rightarrow> message_row \<Rightarrow> bool" where
  "only_marked_read m m' = (m' = m \<or> (\<not> isRead m \<and> m' = m\<lparr>isRead := True\<rparr>))"

definition messages_evolve :: "message_row list \<Rightarrow> message_row list \<Rightarrow> bool" where
  "messages_evolve ms ms' =
     (length ms \<le> length ms' \<and> (\<forall>i < length ms. only_marked_read (ms ! i) (ms' ! i)))"

section \<open>Upload admission: file.controller.ts and files.controller.ts\<close>

text \<open>\<open>const MAX_FILE_SIZE = 50 * 1024 * 1024\<close> (file.controller.ts, line 24).\<close>

definition MAX_FILE_SIZE :: nat where
  "MAX_FILE_SIZE = 50 * 1024 * 1024"

text \<open>\<open>ALLOWED_MIME_TYPES\<close> (file.controller.ts, lines 25-54), in the source's order.\<close>

definition ALLOWED_MIME_TYPES :: "string list" where
  "ALLOWED_MIME_TYPES =
    [''image/jpeg'',
     ''image/png'',
     ''image/gif'',
     ''image/webp'',
     ''image/svg+xml'',
     ''application/pdf'',
     ''application/msword'',
     ''application/vnd.openxmlformats-officedocument.wordprocessingml.document'',
     ''application/vnd.ms-excel'',
     ''application/vnd.openxmlformats-officedocument.spreadsheetml.sheet'',
     ''application/vnd.ms-powerpoint'',
     ''application/vnd.openxmlformats-officedocument.presentationml.presentation'',
     ''text/plain'',
     ''text/csv'',
     ''application/zip'',
     ''application/x-rar-compressed'',
     ''application/x-7z-compressed'',
     ''audio/mpeg'',
     ''audio/wav'',
     ''audio/ogg'',
     ''video/mp4'',
     ''video/mpeg'',
     ''video/quicktime'',
     ''video/webm'']"

text \<open>
  The \<open>fileFilter\<close> callback of \<open>FileController.uploadFile\<close> (file.controller.ts, lines
  75-86), as a function of \<open>file.mimetype\<close> (\<open>mt\<close>): \<open>callback(null, true)\<close> is
  \<open>Inr True\<close>, \<open>callback(new BadRequestException(...), false)\<close> is the exception.
\<close>

definition FileController_fileFilter :: "string \<Rightarrow> exn + bool" where
  "FileController_fileFilter mt =
     (if mt \<in> set ALLOWED_MIME_TYPES then Inr True
      else Inl (BadRequestException (''File type '' @ mt @ '' is not allowed'')))"

text \<open>\<open>limits.fileSize\<close> of \<open>FileController.uploadFile\<close> (line 73).\<close>

definition FileController_fileSize :: nat where
  "FileController_fileSize = MAX_FILE_SIZE"

text \<open>
  The \<open>fileFilter\<close> callback of \<open>FilesController.uploadFile\<close> (files.controller.ts, lines
  48-50): \<open>callback(null, true)\<close> whatever the file, and its \<open>limits.fileSize\<close> (line 46).
\<close>

definition FilesController_fileFilter :: "string \<Rightarrow> exn + bool" where
  "FilesController_fileFilter mt = Inr True"

definition FilesController_fileSize :: nat where
  "FilesController_fileSize = 50 * 1024 * 1024"

section \<open>The transfer-method label: MessageInput.tsx\<close>

text \<open>
  The browser's \<open>File\<close> object, with the fields the component reads. \<open>File.size\<close> is a
  byte count, a natural number.
\<close>

record browser_file =
  bf_name :: string
  bf_size :: nat
  bf_type :: string

text \<open>
  \<open>getFileTransferMethod\<close> (MessageInput.tsx, lines 35-47). \<open>selectedFile\<close> is
  \<open>File | null\<close>; \<open>isUserOnline\<close> is the receiver's presence as the component got it.
\<close>

definition getFileTransferMethod :: "browser_file option \<Rightarrow> bool \<Rightarrow> string" where
  "getFileTransferMethod selectedFile isUserOnline =
     (case selectedFile of
        None \<Rightarrow> ''''
      | Some f \<Rightarrow>
          (let isLargeFile = bf_size f > 10 * 1024 * 1024 in
           if isLargeFile then '' (Server upload - large file)''
           else if \<not> isUserOnline then '' (Server upload - user offline)''
           else '' (P2P preferred, server fallback)''))"

section \<open>Example data\<close>

text \<open>
  Three accounts: \<open>alice\<close> with a password, \<open>bob\<close> who signed in with Google only, and
  \<open>carol\<close>. Alice uploaded \<open>report.pdf\<close> through \<open>FileController\<close>; multer stored it as
  \<open>uploads/3f2a.pdf\<close>. No message mentions it yet.
\<close>

definition alice :: user_row where
  "alice = \<lparr> user_id = ''u1'', email = ''alice@example.org'', username = ''alice'',
             password = Some ''hash(wonderland)'', googleId = None, avatar = None,
             user_createdAt = 1, updatedAt = 1 \<rparr>"

definition bob :: user_row where
  "bob = \<lparr> user_id = ''u2'', email = ''bob@example.org'', username = ''bob'',
           password = None, googleId = Some ''g-bob'', avatar = Some ''bob.png'',
           user_createdAt = 2, updatedAt = 2 \<rparr>"

definition carol :: user_row where
  "carol = \<lparr> user_id = ''u3'', email = ''carol@example.org'', username = ''carol'',
             password = Some ''hash(looking-glass)'', googleId = None, avatar = None,
             user_createdAt = 3, updatedAt = 3 \<rparr>"

definition report :: file_row where
  "report = \<lparr> file_id = ''f1'', originalName = ''report.pdf'', stored_fileName = ''3f2a.pdf'',
              mimeType = ''application/pdf'', file_size = 8, file_path = ''uploads/3f2a.pdf'',
              file_createdAt = 4, uploaderId = ''u1'' \<rparr>"

definition store0 :: store where
  "store0 = \<lparr> users = [alice, bob, carol], messages = [], files = [report] \<rparr>"

text \<open>
  The server runs in \<open>/srv/app\<close>; the stored upload is on disk, reachable under the
  absolute path \<open>getFile\<close> builds and under the relative path \<open>downloadFile\<close> builds.
\<close>

definition world0 :: world where
  "world0 = \<lparr> db = store0,
               disk = [''/srv/app/uploads/3f2a.pdf'' \<mapsto> ''%PDF-1.7'',
                       ''./uploads/3f2a.pdf'' \<mapsto> ''%PDF-1.7''],
               cwd = ''/srv/app'',
               trace = [] \<rparr>"

text \<open>
  Later Alice sent the stored upload to Bob: one message refers to it, by \<open>fileId\<close> and
  by \<open>fileUrl\<close>.
\<close>

definition shared :: message_row where
  "shared = \<lparr> msg_id = ''m1'', content = ''Sent a file: report.pdf'', msg_createdAt = 5,
              isRead = False, msg_type = ''file'', fileName = Some ''report.pdf'',
              fileSize = Some 8, fileType = Some ''application/pdf'',
              fileUrl = Some ''/files/download/3f2a.pdf'', senderId = ''u1'',
              receiverId = ''u2'', fileId = Some ''f1'' \<rparr>"

definition world1 :: world where
  "world1 = world0\<lparr>db := store0\<lparr>messages := [shared]\<rparr>\<rparr>"

text \<open>
  Alice also uploaded a diary whose original name starts with the character U+65E5
  (three bytes in UTF-8) and sent it to Bob; and a note whose original name holds a line
  feed. Both are stored, on disk, and named by a message.
\<close>

definition diary_name :: string where
  "diary_name = [CHR 0xE6, CHR 0x97, CHR 0xA5] @ ''.pdf''"

definition note_name :: string where
  "note_name = ''to'' @ [CHR 0x0A] @ ''do.txt''"

definition diary :: file_row where
  "diary = \<lparr> file_id = ''f2'', originalName = diary_name, stored_fileName = ''9c1d.pdf'',
             mimeType = ''application/pdf'', file_size = 8, file_path = ''uploads/9c1d.pdf'',
             file_createdAt = 8, uploaderId = ''u1'' \<rparr>"

definition shared_diary :: message_row where
  "shared_diary = \<lparr> msg_id = ''m3'', content = ''Sent a file: '' @ diary_name,
                    msg_createdAt = 9, isRead = False, msg_type = ''file'',
                    fileName = Some diary_name, fileSize = Some 8,
                    fileType = Some ''application/pdf'',
                    fileUrl = Some ''/files/download/9c1d.pdf'', senderId = ''u1'',
                    receiverId = ''u2'', fileId = Some ''f2'' \<rparr>"

definition shared_note :: message_row where
  "shared_note = \<lparr> msg_id = ''m4'', content = ''Sent a file: '' @ note_name,
                   msg_createdAt = 10, isRead = False, msg_type = ''file'',
                   fileName = Some note_name, fileSize = Some 5,
                   fileType = Some ''text/plain'',
                   fileUrl = Some ''/files/download/5e0b.txt'', senderId = ''u1'',
                   receiverId = ''u2'', fileId = None \<rparr>"

definition world3 :: world where
  "world3 = \<lparr> db = \<lparr> users = [alice, bob, carol], messages = [shared, shared_diary, shared_note],
                      files = [report, diary] \<rparr>,
               disk = [''/srv/app/uploads/9c1d.pdf'' \<mapsto> ''%PDF-1.7'',
                       ''./uploads/9c1d.pdf'' \<mapsto> ''%PDF-1.7'',
                       ''./uploads/5e0b.txt'' \<mapsto> ''to do''],
               cwd = ''/srv/app'',
               trace = [] \<rparr>"

text \<open>
  Alice now sends Bob \<open>cat.gif\<close> through \<open>FilesController\<close>: multer stored the upload as
  \<open>uploads/77aa.gif\<close> before the handler runs. In \<open>env_ok\<close> nothing goes wrong; in
  \<open>env_down\<close> the store refuses the write; in \<open>env_gateway_down\<close> the gateway throws.
\<close>

definition cat_upload :: multer_file where
  "cat_upload = \<lparr> originalname = ''cat.gif'', filename = ''77aa.gif'', mimetype = ''image/gif'',
                  upload_size = 6, upload_path = ''uploads/77aa.gif'' \<rparr>"

definition world2 :: world where
  "world2 = world1\<lparr>disk := (disk world1)(''uploads/77aa.gif'' \<mapsto> ''GIF89a'')\<rparr>"

definition env_ok :: env where
  "env_ok = \<lparr> new_id = ''m2'', now = 6, write_fault = None, notify_fault = None \<rparr>"

definition env_down :: env where
  "env_down = env_ok\<lparr>write_fault := Some CannotReachDatabase\<rparr>"

definition env_gateway_down :: env where
  "env_gateway_down = env_ok\<lparr>notify_fault := Some ''socket server not ready''\<rparr>"

text \<open>The row the store writes for that upload under \<open>env_ok\<close>.\<close>

definition cat_message :: message_row where
  "cat_message = \<lparr> msg_id = ''m2'', content = ''Sent a file: cat.gif'', msg_createdAt = 6,
                   isRead = False, msg_type = ''file'', fileName = Some ''cat.gif'',
                   fileSize = Some 6, fileType = Some ''image/gif'',
                   fileUrl = Some ''/files/download/77aa.gif'', senderId = ''u1'',
                   receiverId = ''u2'', fileId = None \<rparr>"

text \<open>
  Sign-ups: Dave registers with a password; a second Alice arrives from Google with the
  Google name \<open>alice\<close>, which is taken.
\<close>

definition env_user :: env where
  "env_user = \<lparr> new_id = ''u4'', now = 7, write_fault = None, notify_fault = None \<rparr>"

definition google_bob :: google_user where
  "google_bob = \<lparr> g_googleId = ''g-bob'', g_email = ''bob@example.org'', g_username = ''bob'',
                  g_avatar = Some ''bob.png'' \<rparr>"

definition google_alice2 :: google_user where
  "google_alice2 = \<lparr> g_googleId = ''g-alice2'', g_email = ''alice2@example.org'',
                     g_username = ''alice'', g_avatar = None \<rparr>"

text \<open>The JWT payload of an account, as \<open>AuthService.login\<close> signs it: \<open>sub\<close> is the user id.\<close>

definition jwt_of :: "user_row \<Rightarrow> jwt_payload" where
  "jwt_of u = \<lparr> sub = Some (user_id u), payload_id = None \<rparr>"

text \<open>A stand-in for bcryptjs in examples: the hash of \<open>p\<close> is \<open>hash(p)\<close>.\<close>

definition toy_hash :: "string \<Rightarrow> nat \<Rightarrow> string" where
  "toy_hash p rounds = ''hash('' @ p @ '')''"

definition toy_compare :: "string \<Rightarrow> string \<Rightarrow> bool" where
  "toy_compare p h = (h = ''hash('' @ p @ '')'')"

section \<open>Properties\<close>

lemma ALLOWED_MIME_TYPES_length: "length ALLOWED_MIME_TYPES = 24"
  by (simp add: ALLOWED_MIME_TYPES_def)

lemma ALLOWED_MIME_TYPES_distinct: "distinct ALLOWED_MIME_TYPES"
  by (simp add: ALLOWED_MIME_TYPES_def)

subsection \<open>Evaluating the example data\<close>

lemma world0_simps:
  "db world0 = store0" "cwd world0 = ''/srv/app''" "trace world0 = []"
  "disk world0 =
     [''/srv/app/uploads/3f2a.pdf'' \<mapsto> ''%PDF-1.7'', ''./uploads/3f2a.pdf'' \<mapsto> ''%PDF-1.7'']"
  by (simp_all add: world0_def)

lemma world1_simps:
  "db world1 = store0\<lparr>messages := [shared]\<rparr>" "cwd world1 = ''/srv/app''" "trace world1 = []"
  "disk world1 =
     [''/srv/app/uploads/3f2a.pdf'' \<mapsto> ''%PDF-1.7'', ''./uploads/3f2a.pdf'' \<mapsto> ''%PDF-1.7'']"
  by (simp_all add: world1_def world0_def)

lemma world2_simps:
  "db world2 = store0\<lparr>messages := [shared]\<rparr>" "cwd world2 = ''/srv/app''" "trace world2 = []"
  "disk world2 =
     [''/srv/app/uploads/3f2a.pdf'' \<mapsto> ''%PDF-1.7'', ''./uploads/3f2a.pdf'' \<mapsto> ''%PDF-1.7'',
      ''uploads/77aa.gif'' \<mapsto> ''GIF89a'']"
  by (simp_all add: world2_def world1_def world0_def)

lemma env_simps:
  "new_id env_ok = ''m2''" "now env_ok = 6" "write_fault env_ok = None" "notify_fault env_ok = None"
  "new_id env_down = ''m2''" "now env_down = 6" "write_fault env_down = Some CannotReachDatabase"
  "notify_fault env_down = None"
  "new_id env_gateway_down = ''m2''" "now env_gateway_down = 6"
  "write_fault env_gateway_down = None"
  "notify_fault env_gateway_down = Some ''socket server not ready''"
  by (simp_all add: env_ok_def env_down_def env_gateway_down_def)

lemma env_user_simps:
  "new_id env_user = ''u4''" "now env_user = 7" "write_fault env_user = None"
  "notify_fault env_user = None"
  by (simp_all add: env_user_def)

lemma google_user_simps:
  "g_googleId google_bob = ''g-bob''" "g_email google_bob = ''bob@example.org''"
  "g_username google_bob = ''bob''" "g_avatar google_bob = Some ''bob.png''"
  "g_googleId google_alice2 = ''g-alice2''" "g_email google_alice2 = ''alice2@example.org''"
  "g_username google_alice2 = ''alice''" "g_avatar google_alice2 = None"
  by (simp_all add: google_bob_def google_alice2_def)

lemma cat_upload_simps:
  "originalname cat_upload = ''cat.gif''" "filename cat_upload = ''77aa.gif''"
  "mimetype cat_upload = ''image/gif''" "upload_size cat_upload = 6"
  "upload_path cat_upload = ''uploads/77aa.gif''"
  by (simp_all add: cat_upload_def)

lemma world3_simps:
  "users (db world3) = [alice, bob, carol]"
  "messages (db world3) = [shared, shared_diary, shared_note]"
  "files (db world3) = [report, diary]" "cwd world3 = ''/srv/app''"
  "disk world3 =
     [''/srv/app/uploads/9c1d.pdf'' \<mapsto> ''%PDF-1.7'', ''./uploads/9c1d.pdf'' \<mapsto> ''%PDF-1.7'',
      ''./uploads/5e0b.txt'' \<mapsto> ''to do'']"
  by (simp_all add: world3_def)

lemma diary_simps:
  "file_id diary = ''f2''" "uploaderId diary = ''u1''" "file_path diary = ''uploads/9c1d.pdf''"
  "stored_fileName diary = ''9c1d.pdf''" "originalName diary = diary_name"
  "mimeType diary = ''application/pdf''" "file_size diary = 8"
  by (simp_all add: diary_def)

lemma shared_diary_simps:
  "msg_id shared_diary = ''m3''" "fileName shared_diary = Some diary_name"
  "fileUrl shared_diary = Some ''/files/download/9c1d.pdf''" "senderId shared_diary = ''u1''"
  "receiverId shared_diary = ''u2''" "fileId shared_diary = Some ''f2''"
  by (simp_all add: shared_diary_def)

lemma shared_note_simps:
  "msg_id shared_note = ''m4''" "fileName shared_note = Some note_name"
  "fileUrl shared_note = Some ''/files/download/5e0b.txt''" "senderId shared_note = ''u1''"
  "receiverId shared_note = ''u2''" "fileId shared_note = None"
  by (simp_all add: shared_note_def)

lemma store0_simps:
  "users store0 = [alice, bob, carol]" "messages store0 = []" "files store0 = [report]"
  by (simp_all add: store0_def)

lemma report_simps:
  "file_id report = ''f1''" "uploaderId report = ''u1''" "file_path report = ''uploads/3f2a.pdf''"
  "stored_fileName report = ''3f2a.pdf''" "originalName report = ''report.pdf''"
  "mimeType report = ''application/pdf''" "file_size report = 8" "file_createdAt report = 4"
  by (simp_all add: report_def)

lemma shared_simps:
  "msg_id shared = ''m1''" "isRead shared = False" "msg_type shared = ''file''"
  "fileName shared = Some ''report.pdf''" "fileUrl shared = Some ''/files/download/3f2a.pdf''"
  "senderId shared = ''u1''" "receiverId shared = ''u2''" "fileId shared = Some ''f1''"
  by (simp_all add: shared_def)

lemma user_id_simps: "user_id alice = ''u1''" "user_id bob = ''u2''" "user_id carol = ''u3''"
  by (simp_all add: alice_def bob_def carol_def)

lemma user_email_simps:
  "email alice = ''alice@example.org''" "email bob = ''bob@example.org''"
  "email carol = ''carol@example.org''"
  by (simp_all add: alice_def bob_def carol_def)

lemma user_username_simps:
  "username alice = ''alice''" "username bob = ''bob''" "username carol = ''carol''"
  by (simp_all add: alice_def bob_def carol_def)

lemma user_password_simps:
  "password alice = Some ''hash(wonderland)''" "password bob = None"
  "password carol = Some ''hash(looking-glass)''"
  by (simp_all add: alice_def bob_def carol_def)

lemma user_googleId_simps:
  "googleId alice = None" "googleId bob = Some ''g-bob''" "googleId carol = None"
  by (simp_all add: alice_def bob_def carol_def)

lemmas example_simps =
  world0_simps world1_simps world2_simps world3_simps env_simps env_user_simps
  google_user_simps cat_upload_simps diary_simps shared_diary_simps shared_note_simps
  store0_simps report_simps shared_simps user_id_simps
  user_email_simps user_username_simps user_password_simps user_googleId_simps

subsection \<open>Queries on lists\<close>


lemma find_Some_in: "find P xs = Some x \<Longrightarrow> x \<in> set xs \<and> P x"
  by (induction xs) (auto split: if_splits)

lemma FileController_accepts_iff:
  "(FileController_fileFilter mt = Inr True) = (mt \<in> set ALLOWED_MIME_TYPES)"
  by (simp add: FileController_fileFilter_def)

subsection \<open>Upload admission\<close>

text \<open>
  C10, as amended. The two upload handlers admit different files under the same size
  limit of 50 MiB (52428800 bytes): \<open>FileController.uploadFile\<close> accepts a file exactly
  when its MIME type is on the whitelist and refuses every other type with
  \<open>BadRequestException('File type ... is not allowed')\<close>; \<open>FilesController.uploadFile\<close>
  accepts every MIME type. The whitelist holds 24 different types.
\<close>

theorem upload_admission_rules:
  "(FileController_fileFilter mt = Inr True) = (mt \<in> set ALLOWED_MIME_TYPES)
   \<and> (FileController_fileFilter mt =
        Inl (BadRequestException (''File type '' @ mt @ '' is not allowed'')))
       = (mt \<notin> set ALLOWED_MIME_TYPES)
   \<and> FilesController_fileFilter mt = Inr True
   \<and> card (set ALLOWED_MIME_TYPES) = 24
   \<and> FileController_fileSize = 52428800
   \<and> FilesController_fileSize = 52428800"
proof -
  have "card (set ALLOWED_MIME_TYPES) = 24"
    using distinct_card [OF ALLOWED_MIME_TYPES_distinct] ALLOWED_MIME_TYPES_length by simp
  then show ?thesis
    by (simp add: FileController_fileFilter_def FilesController_fileFilter_def
        FileController_fileSize_def FilesController_fileSize_def MAX_FILE_SIZE_def)
qed

text \<open>
  At \<open>text/html\<close>, which is not on the whitelist, the first handler refuses and the
  second accepts; at \<open>image/png\<close> both accept.
\<close>

theorem upload_admission_rules_witness:
  "FileController_fileFilter ''text/html'' =
      Inl (BadRequestException ''File type text/html is not allowed'')
   \<and> FilesController_fileFilter ''text/html'' = Inr True
   \<and> FileController_fileFilter ''image/png'' = Inr True
   \<and> FilesController_fileFilter ''image/png'' = Inr True"
  using upload_admission_rules [of "''text/html''"] upload_admission_rules [of "''image/png''"]
  by (simp add: ALLOWED_MIME_TYPES_def)

text \<open>
  C10 as stated counts 23 whitelisted types. The MIME types \<open>FileController.uploadFile\<close>
  accepts are not 23: the list of lines 25-54 has 24 entries, all different.
\<close>

theorem whitelist_of_23_counterexample:
  "\<not> card {mt. FileController_fileFilter mt = Inr True} = 23"
proof -
  have "{mt. FileController_fileFilter mt = Inr True} = set ALLOWED_MIME_TYPES"
    by (auto simp: FileController_accepts_iff)
  moreover have "card (set ALLOWED_MIME_TYPES) = 24"
    using distinct_card [OF ALLOWED_MIME_TYPES_distinct] ALLOWED_MIME_TYPES_length by simp
  ultimately show ?thesis by simp
qed

subsection \<open>The transfer method\<close>

text \<open>
  C2. For a selected file, the label names the server upload (the relay strategy) exactly
  when the file is larger than 10 MiB or the receiver is offline, and the peer-to-peer
  transfer otherwise; a file larger than 10 MiB gets the server upload whether the
  receiver is online or not.
\<close>

theorem transfer_method_selection:
  "(getFileTransferMethod (Some f) isUserOnline
        \<in> {'' (Server upload - large file)'', '' (Server upload - user offline)''})
      = (bf_size f > 10 * 1024 * 1024 \<or> \<not> isUserOnline)
   \<and> (getFileTransferMethod (Some f) isUserOnline = '' (P2P preferred, server fallback)'')
      = (\<not> (bf_size f > 10 * 1024 * 1024 \<or> \<not> isUserOnline))
   \<and> (bf_size f > 10 * 1024 * 1024 \<longrightarrow>
        getFileTransferMethod (Some f) True = '' (Server upload - large file)''
        \<and> getFileTransferMethod (Some f) False = '' (Server upload - large file)'')"
  by (simp add: getFileTransferMethod_def Let_def)

text \<open>
  A file of 20 MiB to an online receiver goes through the server; a file of exactly
  10 MiB goes peer to peer to an online receiver and through the server to an offline one.
\<close>

theorem transfer_method_selection_witness:
  "getFileTransferMethod
      (Some \<lparr>bf_name = ''movie.mp4'', bf_size = 20971520, bf_type = ''video/mp4''\<rparr>) True
      = '' (Server upload - large file)''
   \<and> getFileTransferMethod
      (Some \<lparr>bf_name = ''note.txt'', bf_size = 10485760, bf_type = ''text/plain''\<rparr>) True
      = '' (P2P preferred, server fallback)''
   \<and> getFileTransferMethod
      (Some \<lparr>bf_name = ''note.txt'', bf_size = 10485760, bf_type = ''text/plain''\<rparr>) False
      = '' (Server upload - user offline)''"
  using
    transfer_method_selection
      [of "\<lparr>bf_name = ''movie.mp4'', bf_size = 20971520, bf_type = ''video/mp4''\<rparr>" True]
    transfer_method_selection
      [of "\<lparr>bf_name = ''note.txt'', bf_size = 10485760, bf_type = ''text/plain''\<rparr>" True]
    transfer_method_selection
      [of "\<lparr>bf_name = ''note.txt'', bf_size = 10485760, bf_type = ''text/plain''\<rparr>" False]
  by (simp add: getFileTransferMethod_def)

subsection \<open>Header values and the download handlers, case by case\<close>

lemma setHeaders_eq:
  "setHeaders xs hs =
     (if list_all (\<lambda>(name, v). header_value_ok v) xs then Inr (hs @ xs)
      else Inl (TypeError ''ERR_INVALID_CHAR''))"
  by (induction xs arbitrary: hs) (auto simp: setHeader_def)

lemma header_string_ok_append:
  "header_string_ok (a @ b) = (header_string_ok a \<and> header_string_ok b)"
  by (simp add: header_string_ok_def)

lemma header_string_ok_disposition:
  "header_string_ok (content_disposition n) = header_string_ok n"
  by (simp add: content_disposition_def header_string_ok_def header_byte_ok_def dquote_def)

lemma header_byte_ok_digit: "d < 10 \<Longrightarrow> header_byte_ok (digit_char d)"
proof -
  assume "d < 10"
  then have "digit_char d \<in> set ''0123456789''"
    unfolding digit_char_def by (intro nth_mem) simp
  then show ?thesis by (auto simp: header_byte_ok_def)
qed

lemma header_string_ok_dec: "header_string_ok (dec n)"
proof (induction n rule: dec.induct)
  case (1 n)
  show ?case
  proof (cases "n < 10")
    case True
    then show ?thesis by (simp add: dec_small header_string_ok_def header_byte_ok_digit)
  next
    case False
    with "1.IH" show ?thesis
      by (simp add: dec_large header_string_ok_def header_byte_ok_digit)
  qed
qed

lemma header_examples:
  "header_string_ok ''application/pdf''" "header_string_ok ''report.pdf''"
  "\<not> header_string_ok diary_name" "\<not> header_string_ok note_name"
  by (simp_all add: header_string_ok_def header_byte_ok_def diary_name_def note_name_def)

lemma catch_download_simps:
  "catch_download (NotFoundException msg) = NotFoundException msg"
  "catch_download (BadRequestException msg) = BadRequestException msg"
  "catch_download (TypeError code) = NotFoundException ''File not found''"
  "catch_download (PrismaClientError err) = NotFoundException ''File not found''"
  "catch_download (GatewayError g) = NotFoundException ''File not found''"
  by (simp_all add: catch_download_def)

lemma catch_info_simps:
  "catch_info (NotFoundException msg) = NotFoundException msg"
  "catch_info (BadRequestException msg) = NotFoundException ''File not found''"
  "catch_info (TypeError code) = NotFoundException ''File not found''"
  by (simp_all add: catch_info_def)

text \<open>What \<open>getFile\<close> and \<open>downloadFile\<close> answer, case by case.\<close>

lemma getFile_cases:
  "getFile fid userId w =
     (case file_findUnique (db w) fid of
        None \<Rightarrow> Inl (NotFoundException ''File not found'')
      | Some f \<Rightarrow>
          if \<not> checkFileAccess (db w) fid userId then Inl (NotFoundException ''File not found'')
          else
            (case disk w (path_join (cwd w) (file_path f)) of
               None \<Rightarrow> Inl (NotFoundException ''File not found on disk'')
             | Some bytes \<Rightarrow>
                 if header_string_ok (mimeType f) \<and> header_string_ok (originalName f)
                 then Inr \<lparr> headers =
                         [(''Content-Type'', HString (mimeType f)),
                          (''Content-Disposition'',
                             HString (content_disposition (originalName f))),
                          (''Content-Length'', HNumber (file_size f))],
                        body = bytes \<rparr>
                 else Inl (NotFoundException ''File not found'')))"
  by (auto simp: getFile_def getFile_try_def Let_def setHeaders_eq header_string_ok_disposition
      catch_download_simps split: option.splits)

lemma downloadFile_try_cases:
  "downloadFile_try fname u bytes w =
     (case message_findFirst_fileUrl (db w) (''/files/download/'' @ fname) u of
        None \<Rightarrow> Inl (NotFoundException ''File not found or access denied'')
      | Some m \<Rightarrow>
          if header_string_ok (case fileName m of None \<Rightarrow> ''null'' | Some n \<Rightarrow> n)
          then Inr \<lparr> headers =
                  [(''Content-Type'', HString ''application/octet-stream''),
                   (''Content-Disposition'',
                      HString (content_disposition
                        (case fileName m of None \<Rightarrow> ''null'' | Some n \<Rightarrow> n))),
                   (''Content-Length'', HString (dec (length bytes))),
                   (''Cache-Control'', HString ''no-cache''),
                   (''Accept-Ranges'', HString ''bytes''),
                   (''Access-Control-Allow-Origin'', HString ''http://localhost:3000''),
                   (''Access-Control-Allow-Credentials'', HString ''true''),
                   (''Access-Control-Expose-Headers'',
                      HString ''Content-Disposition, Content-Length'')],
                 body = bytes \<rparr>
          else Inl (TypeError ''ERR_INVALID_CHAR''))"
proof -
  have c: "header_string_ok ''application/octet-stream''" "header_string_ok ''no-cache''"
    "header_string_ok ''bytes''" "header_string_ok ''http://localhost:3000''"
    "header_string_ok ''true''" "header_string_ok ''Content-Disposition, Content-Length''"
    by (simp_all add: header_string_ok_def header_byte_ok_def)
  show ?thesis
    by (simp add: downloadFile_try_def setHeaders_eq header_string_ok_disposition
        header_string_ok_dec c split: option.splits)
qed

lemma downloadFile_cases:
  "downloadFile fname user w =
     (case request_userId user of
        None \<Rightarrow> Inl (BadRequestException ''Invalid user authentication'')
      | Some u \<Rightarrow>
          if u = [] then Inl (BadRequestException ''Invalid user authentication'')
          else
            (case disk w (''./uploads/'' @ fname) of
               None \<Rightarrow> Inl (NotFoundException ''File not found'')
             | Some bytes \<Rightarrow>
                 (case downloadFile_try fname u bytes w of
                    Inl error \<Rightarrow> Inl (catch_download error)
                  | Inr response \<Rightarrow> Inr response)))"
  by (simp add: downloadFile_def truthy_def Let_def split: option.splits)

lemmas access_eval =
  getFile_cases downloadFile_cases downloadFile_try_cases catch_download_simps header_examples
  file_findUnique_def checkFileAccess_def request_userId_def js_or_def truthy_def jwt_of_def
  path_join_def message_findFirst_fileUrl_def message_findFirst_fileId_def

subsection \<open>Access to file bytes\<close>














subsection \<open>The error of a refused retrieval\<close>

lemma getFile_refused:
  "\<not> checkFileAccess (db w) fid userId \<Longrightarrow>
     getFile fid userId w = Inl (NotFoundException ''File not found'')"
  by (simp add: getFile_cases split: option.splits)

lemma getFile_missing:
  "file_findUnique (db w) fid = None \<Longrightarrow>
     getFile fid userId w = Inl (NotFoundException ''File not found'')"
  by (simp add: getFile_cases)

lemma getFileInfo_refused:
  "\<not> checkFileAccess (db w) fid userId \<Longrightarrow>
     getFileInfo fid userId w = Inl (NotFoundException ''File not found'')"
  by (simp add: getFileInfo_def getFileInfo_try_def catch_info_simps split: option.splits)

lemma getFileInfo_missing:
  "file_findUnique (db w) fid = None \<Longrightarrow>
     getFileInfo fid userId w = Inl (NotFoundException ''File not found'')"
  by (simp add: getFileInfo_def getFileInfo_try_def catch_info_simps)

text \<open>
  C5, as amended. A retrieval the access check refuses fails with a
  \<open>NotFoundException\<close>; there is no error of its own for a refusal. By id, the exception
  is \<open>NotFoundException('File not found')\<close>, the very exception of a file id that does
  not exist. By file name, it is \<open>NotFoundException('File not found or access denied')\<close>,
  while a file missing from disk gives \<open>NotFoundException('File not found')\<close>: the same
  exception class with another message.
\<close>

theorem denied_retrieval_errors:
  "(\<not> checkFileAccess (db w) fid userId \<longrightarrow>
      getFile fid userId w = Inl (NotFoundException ''File not found''))
   \<and> (file_findUnique (db w) fid = None \<longrightarrow>
      getFile fid userId w = Inl (NotFoundException ''File not found''))
   \<and> (request_userId user = Some u \<and> u \<noteq> [] \<and> disk w (''./uploads/'' @ fname) \<noteq> None
       \<and> \<not> (\<exists>m \<in> set (messages (db w)). fileUrl m = Some (''/files/download/'' @ fname)
              \<and> (senderId m = u \<or> receiverId m = u)) \<longrightarrow>
      downloadFile fname user w = Inl (NotFoundException ''File not found or access denied''))
   \<and> (request_userId user = Some u \<and> u \<noteq> [] \<and> disk w (''./uploads/'' @ fname) = None \<longrightarrow>
      downloadFile fname user w = Inl (NotFoundException ''File not found''))"
proof (intro conjI impI)
  assume "\<not> checkFileAccess (db w) fid userId"
  then show "getFile fid userId w = Inl (NotFoundException ''File not found'')"
    by (rule getFile_refused)
next
  assume "file_findUnique (db w) fid = None"
  then show "getFile fid userId w = Inl (NotFoundException ''File not found'')"
    by (rule getFile_missing)
next
  assume a: "request_userId user = Some u \<and> u \<noteq> [] \<and> disk w (''./uploads/'' @ fname) \<noteq> None
       \<and> \<not> (\<exists>m \<in> set (messages (db w)). fileUrl m = Some (''/files/download/'' @ fname)
              \<and> (senderId m = u \<or> receiverId m = u))"
  then have "message_findFirst_fileUrl (db w) (''/files/download/'' @ fname) u = None"
    by (simp add: message_findFirst_fileUrl_def find_None_iff)
  with a show "downloadFile fname user w = Inl (NotFoundException ''File not found or access denied'')"
    by (auto simp: downloadFile_cases downloadFile_try_cases catch_download_simps)
next
  assume "request_userId user = Some u \<and> u \<noteq> [] \<and> disk w (''./uploads/'' @ fname) = None"
  then show "downloadFile fname user w = Inl (NotFoundException ''File not found'')"
    by (simp add: downloadFile_cases)
qed

text \<open>Carol asks for Alice's file, by id and by name, and for files that do not exist.\<close>

theorem denied_retrieval_errors_witness:
  "getFile ''f1'' (user_id carol) world1 = Inl (NotFoundException ''File not found'')
   \<and> getFile ''f9'' (user_id carol) world1 = Inl (NotFoundException ''File not found'')
   \<and> downloadFile ''3f2a.pdf'' (Some (jwt_of carol)) world1
        = Inl (NotFoundException ''File not found or access denied'')
   \<and> downloadFile ''none.pdf'' (Some (jwt_of carol)) world1
        = Inl (NotFoundException ''File not found'')"
proof -
  have a: "\<not> checkFileAccess (db world1) ''f1'' (user_id carol)"
    by (simp add: example_simps file_findUnique_def checkFileAccess_def
        message_findFirst_fileId_def)
  have b: "file_findUnique (db world1) ''f9'' = None"
    by (simp add: example_simps file_findUnique_def)
  have c: "request_userId (Some (jwt_of carol)) = Some ''u3'' \<and> ''u3'' \<noteq> []
       \<and> disk world1 (''./uploads/'' @ ''3f2a.pdf'') \<noteq> None
       \<and> \<not> (\<exists>m \<in> set (messages (db world1)). fileUrl m = Some (''/files/download/'' @ ''3f2a.pdf'')
              \<and> (senderId m = ''u3'' \<or> receiverId m = ''u3''))"
    by (simp add: example_simps request_userId_def js_or_def truthy_def jwt_of_def)
  have d: "request_userId (Some (jwt_of carol)) = Some ''u3'' \<and> ''u3'' \<noteq> []
       \<and> disk world1 (''./uploads/'' @ ''none.pdf'') = None"
    by (simp add: example_simps request_userId_def js_or_def truthy_def jwt_of_def)
  note t1 = denied_retrieval_errors [where w = world1 and fid = "''f1''"
      and userId = "user_id carol" and user = "Some (jwt_of carol)" and u = "''u3''"
      and fname = "''3f2a.pdf''"]
  note t2 = denied_retrieval_errors [where w = world1 and fid = "''f9''"
      and userId = "user_id carol" and user = "Some (jwt_of carol)" and u = "''u3''"
      and fname = "''none.pdf''"]
  from t1 a have 1: "getFile ''f1'' (user_id carol) world1 = Inl (NotFoundException ''File not found'')"
    by blast
  from t2 b have 2: "getFile ''f9'' (user_id carol) world1 = Inl (NotFoundException ''File not found'')"
    by blast
  from t1 c have 3: "downloadFile ''3f2a.pdf'' (Some (jwt_of carol)) world1
        = Inl (NotFoundException ''File not found or access denied'')"
    by blast
  from t2 d have 4: "downloadFile ''none.pdf'' (Some (jwt_of carol)) world1
        = Inl (NotFoundException ''File not found'')"
    by blast
  from 1 2 3 4 show ?thesis by (intro conjI)
qed

text \<open>
  C5 as stated wants a refusal to be an error distinct from file-not-found. Carol,
  refused for the existing file \<open>f1\<close>, gets from \<open>getFile\<close> exactly what she gets for the
  id \<open>f9\<close> that no file has.
\<close>

theorem denied_is_not_found_counterexample:
  "file_findUnique (db world1) ''f1'' = Some report
   \<and> \<not> checkFileAccess (db world1) ''f1'' (user_id carol)
   \<and> file_findUnique (db world1) ''f9'' = None
   \<and> getFile ''f1'' (user_id carol) world1 = getFile ''f9'' (user_id carol) world1"
  by (simp add: example_simps access_eval)

subsection \<open>A forbidden file looks like a missing one\<close>

text \<open>
  C8. For a requester without access, \<open>getFile\<close> and \<open>getFileInfo\<close> answer with
  \<open>NotFoundException('File not found')\<close>, which is also their answer to an id that no
  file has (in any world, for any requester): the answers do not tell an existing but
  forbidden file from one that does not exist.
\<close>

theorem forbidden_looks_missing:
  "\<not> checkFileAccess (db w) fid userId \<Longrightarrow> file_findUnique (db w') fid' = None \<Longrightarrow>
     getFile fid userId w = Inl (NotFoundException ''File not found'')
     \<and> getFile fid' userId' w' = Inl (NotFoundException ''File not found'')
     \<and> getFileInfo fid userId w = Inl (NotFoundException ''File not found'')
     \<and> getFileInfo fid' userId' w' = Inl (NotFoundException ''File not found'')"
  by (simp add: getFile_refused getFile_missing getFileInfo_refused getFileInfo_missing)

text \<open>Carol and the existing file \<open>f1\<close>, against the id \<open>f9\<close> that no file has.\<close>

theorem forbidden_looks_missing_witness:
  "file_findUnique (db world1) ''f1'' = Some report
   \<and> \<not> checkFileAccess (db world1) ''f1'' (user_id carol)
   \<and> file_findUnique (db world1) ''f9'' = None
   \<and> getFile ''f1'' (user_id carol) world1 = Inl (NotFoundException ''File not found'')
   \<and> getFile ''f9'' (user_id carol) world1 = Inl (NotFoundException ''File not found'')
   \<and> getFileInfo ''f1'' (user_id carol) world1 = Inl (NotFoundException ''File not found'')
   \<and> getFileInfo ''f9'' (user_id carol) world1 = Inl (NotFoundException ''File not found'')"
proof -
  have a: "\<not> checkFileAccess (db world1) ''f1'' (user_id carol)"
    by (simp add: example_simps access_eval)
  have b: "file_findUnique (db world1) ''f9'' = None"
    by (simp add: example_simps access_eval)
  have c: "file_findUnique (db world1) ''f1'' = Some report"
    by (simp add: example_simps access_eval)
  from forbidden_looks_missing [OF a b, of "user_id carol"] a b c show ?thesis by simp
qed

subsection \<open>The relay upload\<close>

lemma message_create_Inr:
  "message_create e s d = Inr (m, s') \<Longrightarrow>
     s' = s\<lparr>messages := messages s @ [m]\<rparr>
     \<and> msg_id m = new_id e
     \<and> isRead m = (case data_isRead d of None \<Rightarrow> False | Some b \<Rightarrow> b)
     \<and> msg_type m = (case data_type d of None \<Rightarrow> ''text'' | Some t \<Rightarrow> t)
     \<and> senderId m = data_senderId d \<and> receiverId m = data_receiverId d
     \<and> fileUrl m = data_fileUrl d"
  by (auto simp: message_create_def Let_def split: option.splits if_splits)

lemma message_create_fault: "write_fault e = Some err \<Longrightarrow> message_create e s d = Inl err"
  by (simp add: message_create_def)

lemma unlink_if_exists_simps:
  "db (unlink_if_exists p w) = db w"
  "disk (unlink_if_exists p w) p = None"
  "q \<noteq> p \<Longrightarrow> disk (unlink_if_exists p w) q = disk w q"
  "trace (unlink_if_exists p w) = trace w @ (if disk w p \<noteq> None then [Unlinked p] else [])"
  by (simp_all add: unlink_if_exists_def)

text \<open>The ways through \<open>FilesController.uploadFile\<close> once a file came with the request.\<close>

lemma uploadFile_no_sender:
  "\<not> truthy (request_userId user) \<Longrightarrow>
   FilesController_uploadFile e (Some f) r user w =
     (Inl (BadRequestException ''Invalid user authentication''), unlink_if_exists (upload_path f) w)"
  by (simp add: FilesController_uploadFile_def)

lemma uploadFile_no_receiver:
  "truthy (request_userId user) \<Longrightarrow> \<not> truthy r \<Longrightarrow>
   FilesController_uploadFile e (Some f) r user w =
     (Inl (BadRequestException ''Receiver ID is required''), unlink_if_exists (upload_path f) w)"
  by (simp add: FilesController_uploadFile_def)

lemma uploadFile_write_failed:
  "truthy (request_userId user) \<Longrightarrow> truthy r \<Longrightarrow>
   message_create e (db w) (upload_message_data f (the (request_userId user)) (the r)) = Inl err \<Longrightarrow>
   FilesController_uploadFile e (Some f) r user w =
     (Inl (PrismaClientError err), unlink_if_exists (upload_path f) w)"
  by (simp add: FilesController_uploadFile_def)

lemma uploadFile_written:
  "truthy (request_userId user) \<Longrightarrow> truthy r \<Longrightarrow>
   message_create e (db w) (upload_message_data f (the (request_userId user)) (the r)) = Inr (m, s') \<Longrightarrow>
   FilesController_uploadFile e (Some f) r user w =
     (let w2 = w\<lparr>db := s', trace := trace w @ [Persisted m, NotifyFileUploadComplete (message_with_users s' m)]\<rparr>
      in case notify_fault e of
           Some g \<Rightarrow> (Inl (GatewayError g), unlink_if_exists (upload_path f) w2)
         | None \<Rightarrow> (Inr [(''message'', JSString ''File uploaded successfully''),
                           (''data'', JSObject (message_with_users s' m))], w2))"
  by (simp add: FilesController_uploadFile_def Let_def split: option.splits)

text \<open>The example upload, evaluated.\<close>

lemma cat_message_create:
  "message_create env_ok (store0\<lparr>messages := [shared]\<rparr>)
       (upload_message_data cat_upload ''u1'' ''u2'')
     = Inr (cat_message, store0\<lparr>messages := [shared, cat_message]\<rparr>)"
  by (simp add: message_create_def upload_message_data_def example_simps cat_message_def Let_def)

lemma cat_sender: "request_userId (Some (jwt_of alice)) = Some ''u1''"
  by (simp add: request_userId_def jwt_of_def js_or_def truthy_def user_id_simps)

lemma cat_upload_ok:
  "FilesController_uploadFile env_ok (Some cat_upload) (Some ''u2'') (Some (jwt_of alice)) world2
     = (Inr [(''message'', JSString ''File uploaded successfully''),
             (''data'', JSObject (message_with_users (store0\<lparr>messages := [shared, cat_message]\<rparr>) cat_message))],
        world2\<lparr>db := store0\<lparr>messages := [shared, cat_message]\<rparr>,
               trace := [Persisted cat_message,
                         NotifyFileUploadComplete
                           (message_with_users (store0\<lparr>messages := [shared, cat_message]\<rparr>) cat_message)]\<rparr>)"
  by (simp add: FilesController_uploadFile_def cat_sender truthy_def cat_message_create
      example_simps Let_def)

lemma cat_upload_gateway_down:
  "FilesController_uploadFile env_gateway_down (Some cat_upload) (Some ''u2'') (Some (jwt_of alice)) world2
     = (Inl (GatewayError ''socket server not ready''),
        world2\<lparr>db := store0\<lparr>messages := [shared, cat_message]\<rparr>,
               disk := (disk world2)(''uploads/77aa.gif'' := None),
               trace := [Persisted cat_message,
                         NotifyFileUploadComplete
                           (message_with_users (store0\<lparr>messages := [shared, cat_message]\<rparr>) cat_message),
                         Unlinked ''uploads/77aa.gif'']\<rparr>)"
  by (simp add: FilesController_uploadFile_def cat_sender truthy_def
      message_create_def upload_message_data_def cat_message_def unlink_if_exists_def
      example_simps Let_def)

lemma cat_message_create_down:
  "message_create env_down (db world2)
     (upload_message_data cat_upload (the (request_userId (Some (jwt_of alice)))) (the (Some ''u2'')))
     = Inl CannotReachDatabase"
  by (simp add: message_create_def example_simps)

lemma cat_message_create_unknown_receiver:
  "message_create env_ok (db world2)
     (upload_message_data cat_upload (the (request_userId (Some (jwt_of alice)))) (the (Some ''u7'')))
     = Inl (ForeignKeyConstraintFailed ''messages_receiverId_fkey'')"
  by (simp add: message_create_def upload_message_data_def cat_sender example_simps)

lemma upload_message_create_succeeds_iff:
  "(\<exists>m s'. message_create e s (upload_message_data f sid rid) = Inr (m, s')) =
     (write_fault e = None \<and> new_id e \<notin> msg_id ` set (messages s)
      \<and> sid \<in> user_id ` set (users s) \<and> rid \<in> user_id ` set (users s))"
  by (auto simp: message_create_def upload_message_data_def Let_def split: option.splits)

lemma cat_upload_premises:
  "Some cat_upload = Some cat_upload \<and> truthy (request_userId (Some (jwt_of alice)))
   \<and> truthy (Some ''u2'')
   \<and> message_create env_ok (db world2)
        (upload_message_data cat_upload (the (request_userId (Some (jwt_of alice))))
           (the (Some ''u2'')))
      = Inr (cat_message, store0\<lparr>messages := [shared, cat_message]\<rparr>)"
  "Some cat_upload = Some cat_upload \<and> truthy (request_userId (Some (jwt_of alice)))
   \<and> truthy (Some ''u2'')
   \<and> message_create env_gateway_down (db world2)
        (upload_message_data cat_upload (the (request_userId (Some (jwt_of alice))))
           (the (Some ''u2'')))
      = Inr (cat_message, store0\<lparr>messages := [shared, cat_message]\<rparr>)"
  by (simp_all add: cat_sender truthy_def message_create_def upload_message_data_def
      cat_message_def Let_def example_simps)

text \<open>
  C3. In \<open>FilesController.uploadFile\<close>, when a file, a sender and a receiver are given
  and the write of the message succeeds, the handler has first stored the message (of
  type \<open>file\<close>, from the sender to the receiver, at the end of the table) and then, at
  once, called \<open>notifyFileUploadComplete\<close> with that stored row; it answers with the
  message unless the gateway threw, in which case it unlinks the upload and rethrows.
  Whatever it is given and however it ends, the effects it adds to the trace contain a
  notification only if the write succeeded, and then they start with that write followed
  by the one notification; a write is in the trace only if it succeeded; a successful
  answer has performed exactly the write and then the notification. The write succeeds
  exactly when the store takes it: no fault, a fresh id, sender and receiver are users.
\<close>

theorem persist_before_notify:
  assumes "FilesController_uploadFile e file r user w = (res, w')"
  shows "(\<forall>f m s'. file = Some f \<and> truthy (request_userId user) \<and> truthy r
            \<and> message_create e (db w)
                 (upload_message_data f (the (request_userId user)) (the r)) = Inr (m, s') \<longrightarrow>
          db w' = s' \<and> messages (db w') = messages (db w) @ [m] \<and> msg_type m = ''file''
          \<and> senderId m = the (request_userId user) \<and> receiverId m = the r
          \<and> trace w' = trace w @
                Persisted m # NotifyFileUploadComplete (message_with_users s' m) #
                  (case notify_fault e of
                     None \<Rightarrow> []
                   | Some g \<Rightarrow> if disk w (upload_path f) \<noteq> None then [Unlinked (upload_path f)] else [])
          \<and> res = (case notify_fault e of
                     None \<Rightarrow> Inr [(''message'', JSString ''File uploaded successfully''),
                                   (''data'', JSObject (message_with_users s' m))]
                   | Some g \<Rightarrow> Inl (GatewayError g)))
     \<and> (\<exists>evs. trace w' = trace w @ evs
       \<and> (\<forall>msg. NotifyFileUploadComplete msg \<in> set evs \<longrightarrow>
          (\<exists>f m post. file = Some f
              \<and> message_create e (db w)
                   (upload_message_data f (the (request_userId user)) (the r)) = Inr (m, db w')
              \<and> evs = Persisted m # NotifyFileUploadComplete msg # post
              \<and> (post = [] \<or> post = [Unlinked (upload_path f)])
              \<and> msg = message_with_users (db w') m
              \<and> m \<in> set (messages (db w')) \<and> msg_type m = ''file''))
       \<and> (\<forall>m. Persisted m \<in> set evs \<longrightarrow>
          (\<exists>f. file = Some f \<and> truthy (request_userId user) \<and> truthy r
              \<and> message_create e (db w)
                   (upload_message_data f (the (request_userId user)) (the r)) = Inr (m, db w')))
       \<and> ((\<exists>out. res = Inr out) \<longrightarrow>
            (\<exists>m. evs = [Persisted m, NotifyFileUploadComplete (message_with_users (db w') m)])))
     \<and> (\<forall>f sid rid.
          (\<exists>m s'. message_create e (db w) (upload_message_data f sid rid) = Inr (m, s')) =
          (write_fault e = None \<and> new_id e \<notin> msg_id ` set (messages (db w))
           \<and> sid \<in> user_id ` set (users (db w)) \<and> rid \<in> user_id ` set (users (db w))))"
proof (cases "file")
  case None
  with assms have "w' = w" and "res = Inl (BadRequestException ''No file uploaded'')"
    by (simp_all add: FilesController_uploadFile_def)
  with None show ?thesis by (simp add: upload_message_create_succeeds_iff)
next
  case (Some f)
  note fl = this
  show ?thesis
  proof (cases "truthy (request_userId user) \<and> truthy r")
    case False
    with assms fl have "w' = unlink_if_exists (upload_path f) w \<and> (\<exists>x. res = Inl x)"
      by (cases "truthy (request_userId user)")
         (auto simp: uploadFile_no_sender uploadFile_no_receiver)
    with False fl show ?thesis
      by (auto simp: unlink_if_exists_simps upload_message_create_succeeds_iff)
  next
    case True
    then have t: "truthy (request_userId user)" "truthy r" by simp_all
    show ?thesis
    proof (cases "message_create e (db w) (upload_message_data f (the (request_userId user)) (the r))")
      case (Inl err)
      from assms fl uploadFile_write_failed [OF t Inl]
      have "w' = unlink_if_exists (upload_path f) w \<and> (\<exists>x. res = Inl x)" by auto
      with Inl fl show ?thesis
        by (auto simp: unlink_if_exists_simps upload_message_create_succeeds_iff)
    next
      case (Inr ms)
      obtain m s' where ms: "ms = (m, s')" by (cases ms)
      from Inr ms have c: "message_create e (db w)
          (upload_message_data f (the (request_userId user)) (the r)) = Inr (m, s')" by simp
      from message_create_Inr [OF c]
      have s': "s' = (db w)\<lparr>messages := messages (db w) @ [m]\<rparr>" and ty: "msg_type m = ''file''"
        and sr: "senderId m = the (request_userId user)" "receiverId m = the r"
        by (simp_all add: upload_message_data_def)
      define w2 where "w2 = w\<lparr>db := s', trace := trace w @
         [Persisted m, NotifyFileUploadComplete (message_with_users s' m)]\<rparr>"
      show ?thesis
      proof (cases "notify_fault e")
        case None
        with assms fl uploadFile_written [OF t c]
        have "w' = w2" and "res = Inr [(''message'', JSString ''File uploaded successfully''),
                                   (''data'', JSObject (message_with_users s' m))]"
          by (auto simp: w2_def Let_def)
        with c s' ty sr fl t None show ?thesis
          by (simp add: w2_def upload_message_create_succeeds_iff)
      next
        case (Some g)
        with assms fl uploadFile_written [OF t c]
        have "w' = unlink_if_exists (upload_path f) w2" and "res = Inl (GatewayError g)"
          by (auto simp: w2_def Let_def)
        with c s' ty sr fl t Some show ?thesis
          by (simp add: w2_def unlink_if_exists_simps upload_message_create_succeeds_iff)
      qed
    qed
  qed
qed

text \<open>
  Alice's upload for Bob: the message is written and then announced; when the gateway
  throws, the write still came first (and the message stays in the store).
\<close>

theorem persist_before_notify_witness:
  "(\<exists>out. fst (FilesController_uploadFile env_ok (Some cat_upload) (Some ''u2'')
              (Some (jwt_of alice)) world2) = Inr out)
   \<and> trace (snd (FilesController_uploadFile env_ok (Some cat_upload) (Some ''u2'')
              (Some (jwt_of alice)) world2))
      = [Persisted cat_message,
         NotifyFileUploadComplete
           (message_with_users (store0\<lparr>messages := [shared, cat_message]\<rparr>) cat_message)]
   \<and> messages (db (snd (FilesController_uploadFile env_ok (Some cat_upload) (Some ''u2'')
              (Some (jwt_of alice)) world2)))
      = [shared, cat_message]
   \<and> fst (FilesController_uploadFile env_gateway_down (Some cat_upload) (Some ''u2'')
              (Some (jwt_of alice)) world2) = Inl (GatewayError ''socket server not ready'')
   \<and> trace (snd (FilesController_uploadFile env_gateway_down (Some cat_upload) (Some ''u2'')
              (Some (jwt_of alice)) world2))
      = [Persisted cat_message,
         NotifyFileUploadComplete
           (message_with_users (store0\<lparr>messages := [shared, cat_message]\<rparr>) cat_message),
         Unlinked ''uploads/77aa.gif'']
   \<and> messages (db (snd (FilesController_uploadFile env_gateway_down (Some cat_upload) (Some ''u2'')
              (Some (jwt_of alice)) world2)))
      = [shared, cat_message]"
proof -
  let ?ok = "FilesController_uploadFile env_ok (Some cat_upload) (Some ''u2'')
              (Some (jwt_of alice)) world2"
  let ?down = "FilesController_uploadFile env_gateway_down (Some cat_upload) (Some ''u2'')
              (Some (jwt_of alice)) world2"
  have "?ok = (fst ?ok, snd ?ok)" by simp
  from persist_before_notify [OF this, THEN conjunct1, rule_format, OF cat_upload_premises(1)]
  have ok: "(\<exists>out. fst ?ok = Inr out)
     \<and> trace (snd ?ok) = [Persisted cat_message,
         NotifyFileUploadComplete
           (message_with_users (store0\<lparr>messages := [shared, cat_message]\<rparr>) cat_message)]
     \<and> messages (db (snd ?ok)) = [shared, cat_message]"
    by (simp add: example_simps)
  have "?down = (fst ?down, snd ?down)" by simp
  from persist_before_notify [OF this, THEN conjunct1, rule_format, OF cat_upload_premises(2)]
  have down: "fst ?down = Inl (GatewayError ''socket server not ready'')
     \<and> trace (snd ?down) = [Persisted cat_message,
         NotifyFileUploadComplete
           (message_with_users (store0\<lparr>messages := [shared, cat_message]\<rparr>) cat_message),
         Unlinked ''uploads/77aa.gif'']
     \<and> messages (db (snd ?down)) = [shared, cat_message]"
    by (simp add: example_simps)
  from ok down show ?thesis by (intro conjI) simp_all
qed

text \<open>
  C4. If the write of the message fails in \<open>FilesController.uploadFile\<close> (sender and
  receiver were given), the handler throws the very error of the write, the upload is
  no longer on disk, every other file on disk and the store are as before, and nothing
  happened but that unlink: no message, no notification.
\<close>

theorem failed_write_aborts_upload:
  assumes "truthy (request_userId user)" and "truthy r"
    and "message_create e (db w)
           (upload_message_data f (the (request_userId user)) (the r)) = Inl err"
  shows "\<exists>w'. FilesController_uploadFile e (Some f) r user w = (Inl (PrismaClientError err), w')
     \<and> disk w' (upload_path f) = None
     \<and> (\<forall>q. q \<noteq> upload_path f \<longrightarrow> disk w' q = disk w q)
     \<and> db w' = db w
     \<and> trace w' = trace w @ (if disk w (upload_path f) \<noteq> None then [Unlinked (upload_path f)] else [])"
  using uploadFile_write_failed [OF assms]
  by (simp add: unlink_if_exists_simps)

text \<open>
  The store unreachable, and a receiver id that no user has (a foreign-key violation):
  both errors reach the caller and \<open>uploads/77aa.gif\<close> is removed.
\<close>

theorem failed_write_aborts_upload_witness:
  "(\<exists>w'. FilesController_uploadFile env_down (Some cat_upload) (Some ''u2'') (Some (jwt_of alice)) world2
          = (Inl (PrismaClientError CannotReachDatabase), w')
      \<and> disk w' ''uploads/77aa.gif'' = None \<and> db w' = db world2
      \<and> trace w' = [Unlinked ''uploads/77aa.gif''])
   \<and> (\<exists>w'. FilesController_uploadFile env_ok (Some cat_upload) (Some ''u7'') (Some (jwt_of alice)) world2
          = (Inl (PrismaClientError (ForeignKeyConstraintFailed ''messages_receiverId_fkey'')), w')
      \<and> disk w' ''uploads/77aa.gif'' = None \<and> db w' = db world2
      \<and> trace w' = [Unlinked ''uploads/77aa.gif''])"
proof -
  have s: "truthy (request_userId (Some (jwt_of alice)))"
    by (simp add: cat_sender truthy_def)
  have r2: "truthy (Some ''u2'')" and r7: "truthy (Some ''u7'')"
    by (simp_all add: truthy_def)
  from failed_write_aborts_upload [OF s r2 cat_message_create_down]
    failed_write_aborts_upload [OF s r7 cat_message_create_unknown_receiver]
  show ?thesis by (auto simp: example_simps)
qed

subsection \<open>The authentication services\<close>

lemma rest_without_no_key: "k \<notin> fst ` set (rest_without k obj)"
  by (auto simp: rest_without_def)

lemma user_public_props:
  "map fst (rest_without ''password'' (user_object u)) =
     [''id'', ''email'', ''username'', ''googleId'', ''avatar'', ''createdAt'', ''updatedAt'']"
  "map_of (rest_without ''password'' (user_object u)) ''id'' = Some (JSString (user_id u))"
  "map_of (rest_without ''password'' (user_object u)) ''email'' = Some (JSString (email u))"
  "map_of (rest_without ''password'' (user_object u)) ''password'' = None"
  by (simp_all add: rest_without_def user_object_def)

lemma user_findUnique_email_None:
  "(user_findUnique_email s em = None) = (em \<notin> email ` set (users s))"
  by (auto simp: user_findUnique_email_def find_None_iff)

lemma user_findUnique_email_Some:
  "user_findUnique_email s em = Some u \<Longrightarrow> u \<in> set (users s) \<and> email u = em"
  unfolding user_findUnique_email_def by (drule find_Some_in) simp

lemma user_findUnique_googleId_Some:
  "user_findUnique_googleId s g = Some u \<Longrightarrow> u \<in> set (users s) \<and> googleId u = Some g"
  unfolding user_findUnique_googleId_def by (drule find_Some_in) simp

lemma validateCredentials_Some_iff:
  "(validateCredentials cmp s em pw = Some obj) =
    (\<exists>user hash. user_findUnique_email s em = Some user \<and> password user = Some hash
        \<and> hash \<noteq> [] \<and> cmp pw hash \<and> obj = rest_without ''password'' (user_object user))"
  by (auto simp: validateCredentials_def split: option.splits)

lemma validateCredentials_None_iff:
  "(validateCredentials cmp s em pw = None) =
    (\<not> (\<exists>user hash. user_findUnique_email s em = Some user \<and> password user = Some hash
        \<and> hash \<noteq> [] \<and> cmp pw hash))"
  by (auto simp: validateCredentials_def split: option.splits)

lemma validateCredentials_Some:
  "validateCredentials cmp s em pw = Some obj \<Longrightarrow>
     \<exists>u \<in> set (users s). obj = rest_without ''password'' (user_object u)"
  by (auto simp: validateCredentials_Some_iff dest: user_findUnique_email_Some)

lemma user_create_Inr:
  "user_create e s em un pw g av = Inr (u, s') \<Longrightarrow>
     u \<in> set (users s') \<and> messages s' = messages s \<and> files s' = files s"
  by (auto simp: user_create_def Let_def split: option.splits if_splits)

lemma user_update_by_email_Inr:
  "user_update_by_email e s em g av = Inr (u, s') \<Longrightarrow>
     u \<in> set (users s') \<and> messages s' = messages s \<and> files s' = files s"
proof -
  assume a: "user_update_by_email e s em g av = Inr (u, s')"
  then obtain u0 where f: "user_findUnique_email s em = Some u0"
    by (auto simp: user_update_by_email_def split: option.splits)
  then have u0: "u0 \<in> set (users s)" "email u0 = em"
    by (simp_all add: user_findUnique_email_Some)
  from a f have s': "s' = s\<lparr>users := map (\<lambda>v. if email v = em then u else v) (users s)\<rparr>"
    by (auto simp: user_update_by_email_def Let_def split: option.splits if_splits)
  from u0 have "u \<in> set (map (\<lambda>v. if email v = em then u else v) (users s))"
    by (force simp: image_iff)
  with s' show ?thesis by simp
qed

lemma createUser_Inr:
  "createUser h e em un pw s = (Inr obj, s') \<Longrightarrow>
     \<exists>u \<in> set (users s'). obj = rest_without ''password'' (user_object u)"
  by (auto simp: createUser_def Let_def split: sum.splits dest: user_create_Inr)

lemma validateGoogleUser_Inr:
  "validateGoogleUser e g s = (Inr obj, s') \<Longrightarrow>
     \<exists>u \<in> set (users s'). obj = rest_without ''password'' (user_object u)"
  by (auto simp: validateGoogleUser_def Let_def split: option.splits sum.splits
      dest: user_create_Inr user_update_by_email_Inr user_findUnique_googleId_Some)

text \<open>The example sign-ins and sign-ups, evaluated.\<close>

lemma alice_public:
  "rest_without ''password'' (user_object alice) =
     [(''id'', JSString ''u1''), (''email'', JSString ''alice@example.org''),
      (''username'', JSString ''alice''), (''googleId'', JSNull), (''avatar'', JSNull),
      (''createdAt'', JSDate 1), (''updatedAt'', JSDate 1)]"
  by (simp add: rest_without_def user_object_def alice_def nullable_def)

lemma bob_public:
  "rest_without ''password'' (user_object bob) =
     [(''id'', JSString ''u2''), (''email'', JSString ''bob@example.org''),
      (''username'', JSString ''bob''), (''googleId'', JSString ''g-bob''),
      (''avatar'', JSString ''bob.png''), (''createdAt'', JSDate 2), (''updatedAt'', JSDate 2)]"
  by (simp add: rest_without_def user_object_def bob_def nullable_def)

lemma alice_validated:
  "validateCredentials toy_compare store0 ''alice@example.org'' ''wonderland''
     = Some (rest_without ''password'' (user_object alice))"
  by (simp add: validateCredentials_def user_findUnique_email_def toy_compare_def example_simps)

lemma dave_created:
  "createUser toy_hash env_user ''dave@example.org'' ''dave'' ''rabbit-hole'' store0 =
     (Inr [(''id'', JSString ''u4''), (''email'', JSString ''dave@example.org''),
           (''username'', JSString ''dave''), (''googleId'', JSNull), (''avatar'', JSNull),
           (''createdAt'', JSDate 7), (''updatedAt'', JSDate 7)],
      store0\<lparr>users := [alice, bob, carol,
         \<lparr> user_id = ''u4'', email = ''dave@example.org'', username = ''dave'',
           password = Some ''hash(rabbit-hole)'', googleId = None, avatar = None,
           user_createdAt = 7, updatedAt = 7 \<rparr>]\<rparr>)"
  by (simp add: createUser_def user_create_def toy_hash_def Let_def example_simps
      rest_without_def user_object_def nullable_def)

lemma google_bob_found:
  "validateGoogleUser env_user google_bob store0 =
     (Inr (rest_without ''password'' (user_object bob)), store0)"
  by (simp add: validateGoogleUser_def user_findUnique_googleId_def example_simps)

lemma alice_taken: "uniqueUsername_loop store0 ''alice'' ''alice'' 1 = ''alice1''"
  by (simp add: uniqueUsername_loop.simps user_findUnique_username_def example_simps
      dec_small digit_char_def)

lemma alice_taken_Suc: "uniqueUsername_loop store0 ''alice'' ''alice'' (Suc 0) = ''alice1''"
  using alice_taken by simp

lemma google_alice2_created:
  "validateGoogleUser env_user google_alice2 store0 =
     (Inr [(''id'', JSString ''u4''), (''email'', JSString ''alice2@example.org''),
           (''username'', JSString ''alice1''), (''googleId'', JSString ''g-alice2''),
           (''avatar'', JSNull), (''createdAt'', JSDate 7), (''updatedAt'', JSDate 7)],
      store0\<lparr>users := [alice, bob, carol,
         \<lparr> user_id = ''u4'', email = ''alice2@example.org'', username = ''alice1'',
           password = None, googleId = Some ''g-alice2'', avatar = None,
           user_createdAt = 7, updatedAt = 7 \<rparr>]\<rparr>)"
  by (simp add: validateGoogleUser_def user_findUnique_googleId_def user_findUnique_email_def
      alice_taken_Suc user_create_def Let_def example_simps rest_without_def user_object_def
      nullable_def)

text \<open>
  C7. \<open>validateCredentials\<close> returns an object exactly when a user has the presented
  email, that user's \<open>password\<close> column holds a hash (it is neither NULL, as for an
  account that only signs in with Google, nor empty), and bcrypt matches the presented
  password against it; the object is then that user's row without the \<open>password\<close>
  property, so it has the user's \<open>id\<close>. In every other case it returns \<open>null\<close>. The
  user found for an email is a row of the table with that email, and none is found
  exactly when no row has it.
\<close>

theorem credential_verifier:
  "(validateCredentials cmp s em pw = Some obj) =
    (\<exists>user hash. user_findUnique_email s em = Some user \<and> password user = Some hash
        \<and> hash \<noteq> [] \<and> cmp pw hash \<and> obj = rest_without ''password'' (user_object user))
   \<and> (validateCredentials cmp s em pw = None) =
    (\<not> (\<exists>user hash. user_findUnique_email s em = Some user \<and> password user = Some hash
        \<and> hash \<noteq> [] \<and> cmp pw hash))
   \<and> (user_findUnique_email s em = None) = (em \<notin> email ` set (users s))
   \<and> (\<forall>user. user_findUnique_email s em = Some user \<longrightarrow> user \<in> set (users s) \<and> email user = em)
   \<and> (\<forall>user. map_of (rest_without ''password'' (user_object user)) ''id''
                 = Some (JSString (user_id user))
              \<and> map_of (rest_without ''password'' (user_object user)) ''password'' = None)"
  by (intro conjI allI impI validateCredentials_Some_iff validateCredentials_None_iff
      user_findUnique_email_None user_public_props)
     (simp_all add: user_findUnique_email_Some)

text \<open>
  Alice with her password, Alice with a wrong one, Bob (no password stored), and an
  email nobody has.
\<close>

theorem credential_verifier_witness:
  "validateCredentials toy_compare store0 ''alice@example.org'' ''wonderland''
      = Some [(''id'', JSString ''u1''), (''email'', JSString ''alice@example.org''),
              (''username'', JSString ''alice''), (''googleId'', JSNull), (''avatar'', JSNull),
              (''createdAt'', JSDate 1), (''updatedAt'', JSDate 1)]
   \<and> validateCredentials toy_compare store0 ''alice@example.org'' ''looking-glass'' = None
   \<and> validateCredentials toy_compare store0 ''bob@example.org'' ''wonderland'' = None
   \<and> validateCredentials toy_compare store0 ''dave@example.org'' ''wonderland'' = None"
proof -
  have a: "user_findUnique_email store0 ''alice@example.org'' = Some alice"
    and b: "user_findUnique_email store0 ''bob@example.org'' = Some bob"
    and d: "user_findUnique_email store0 ''dave@example.org'' = None"
    by (simp_all add: user_findUnique_email_def example_simps)
  from a have 1: "validateCredentials toy_compare store0 ''alice@example.org'' ''wonderland''
      = Some (rest_without ''password'' (user_object alice))"
    using credential_verifier [of toy_compare store0 "''alice@example.org''" "''wonderland''"
        "rest_without ''password'' (user_object alice)"]
    by (simp add: example_simps toy_compare_def)
  from a have 2: "validateCredentials toy_compare store0 ''alice@example.org'' ''looking-glass'' = None"
    using credential_verifier [of toy_compare store0 "''alice@example.org''" "''looking-glass''"]
    by (simp add: example_simps toy_compare_def)
  from b have 3: "validateCredentials toy_compare store0 ''bob@example.org'' ''wonderland'' = None"
    using credential_verifier [of toy_compare store0 "''bob@example.org''" "''wonderland''"]
    by (simp add: example_simps toy_compare_def)
  from d have 4: "validateCredentials toy_compare store0 ''dave@example.org'' ''wonderland'' = None"
    using credential_verifier [of toy_compare store0 "''dave@example.org''" "''wonderland''"]
    by (simp add: example_simps toy_compare_def)
  from 1 2 3 4 show ?thesis by (simp add: alice_public)
qed

text \<open>
  C9. Whatever \<open>validateCredentials\<close>, \<open>createUser\<close> or \<open>validateGoogleUser\<close> returns
  to its caller is a stored user's row without the \<open>password\<close> property: no result has a
  property of that name.
\<close>

theorem no_password_in_results:
  "(\<forall>obj. validateCredentials cmp s em pw = Some obj \<longrightarrow>
      ''password'' \<notin> fst ` set obj
      \<and> (\<exists>u \<in> set (users s). obj = rest_without ''password'' (user_object u)))
   \<and> (\<forall>obj s'. createUser h e em' un pw' s = (Inr obj, s') \<longrightarrow>
      ''password'' \<notin> fst ` set obj
      \<and> (\<exists>u \<in> set (users s'). obj = rest_without ''password'' (user_object u)))
   \<and> (\<forall>obj s'. validateGoogleUser e' g s = (Inr obj, s') \<longrightarrow>
      ''password'' \<notin> fst ` set obj
      \<and> (\<exists>u \<in> set (users s'). obj = rest_without ''password'' (user_object u)))"
proof (intro conjI allI impI)
  fix obj assume "validateCredentials cmp s em pw = Some obj"
  from validateCredentials_Some [OF this]
  show "\<exists>u \<in> set (users s). obj = rest_without ''password'' (user_object u)" .
  then show "''password'' \<notin> fst ` set obj" using rest_without_no_key by blast
next
  fix obj s' assume "createUser h e em' un pw' s = (Inr obj, s')"
  from createUser_Inr [OF this]
  show "\<exists>u \<in> set (users s'). obj = rest_without ''password'' (user_object u)" .
  then show "''password'' \<notin> fst ` set obj" using rest_without_no_key by blast
next
  fix obj s' assume "validateGoogleUser e' g s = (Inr obj, s')"
  from validateGoogleUser_Inr [OF this]
  show "\<exists>u \<in> set (users s'). obj = rest_without ''password'' (user_object u)" .
  then show "''password'' \<notin> fst ` set obj" using rest_without_no_key by blast
qed

text \<open>
  Alice signs in, Dave registers (his hash is stored, and not returned), Bob signs in
  with Google, and the second Alice is created as \<open>alice1\<close>.
\<close>

theorem no_password_in_results_witness:
  "(\<exists>obj. validateCredentials toy_compare store0 ''alice@example.org'' ''wonderland'' = Some obj
        \<and> ''password'' \<notin> fst ` set obj \<and> (''id'', JSString ''u1'') \<in> set obj)
   \<and> (\<exists>obj s'. createUser toy_hash env_user ''dave@example.org'' ''dave'' ''rabbit-hole'' store0
          = (Inr obj, s')
        \<and> ''password'' \<notin> fst ` set obj \<and> (''id'', JSString ''u4'') \<in> set obj
        \<and> password (last (users s')) = Some ''hash(rabbit-hole)'')
   \<and> (\<exists>obj s'. validateGoogleUser env_user google_bob store0 = (Inr obj, s')
        \<and> ''password'' \<notin> fst ` set obj \<and> (''id'', JSString ''u2'') \<in> set obj)
   \<and> (\<exists>obj s'. validateGoogleUser env_user google_alice2 store0 = (Inr obj, s')
        \<and> ''password'' \<notin> fst ` set obj \<and> (''username'', JSString ''alice1'') \<in> set obj)"
proof -
  note t = no_password_in_results [where cmp = toy_compare and s = store0
      and em = "''alice@example.org''" and pw = "''wonderland''" and h = toy_hash and e = env_user
      and em' = "''dave@example.org''" and un = "''dave''" and pw' = "''rabbit-hole''"
      and e' = env_user]
  from t [where g = google_bob] alice_validated
  have 1: "''password'' \<notin> fst ` set (rest_without ''password'' (user_object alice))" by blast
  from t [where g = google_bob] dave_created
  have 2: "''password'' \<notin> fst ` set [(''id'', JSString ''u4''), (''email'', JSString ''dave@example.org''),
           (''username'', JSString ''dave''), (''googleId'', JSNull), (''avatar'', JSNull),
           (''createdAt'', JSDate 7), (''updatedAt'', JSDate 7)]" by blast
  from t [where g = google_bob] google_bob_found
  have 3: "''password'' \<notin> fst ` set (rest_without ''password'' (user_object bob))" by blast
  from t [where g = google_alice2] google_alice2_created
  have 4: "''password'' \<notin> fst ` set [(''id'', JSString ''u4''), (''email'', JSString ''alice2@example.org''),
           (''username'', JSString ''alice1''), (''googleId'', JSString ''g-alice2''),
           (''avatar'', JSNull), (''createdAt'', JSDate 7), (''updatedAt'', JSDate 7)]" by blast
  from 1 alice_validated have a: "\<exists>obj. validateCredentials toy_compare store0 ''alice@example.org'' ''wonderland'' = Some obj
        \<and> ''password'' \<notin> fst ` set obj \<and> (''id'', JSString ''u1'') \<in> set obj"
    by (simp add: alice_public)
  from 2 dave_created have b: "\<exists>obj s'. createUser toy_hash env_user ''dave@example.org'' ''dave'' ''rabbit-hole'' store0
          = (Inr obj, s')
        \<and> ''password'' \<notin> fst ` set obj \<and> (''id'', JSString ''u4'') \<in> set obj
        \<and> password (last (users s')) = Some ''hash(rabbit-hole)''"
    by simp
  from 3 google_bob_found have c: "\<exists>obj s'. validateGoogleUser env_user google_bob store0 = (Inr obj, s')
        \<and> ''password'' \<notin> fst ` set obj \<and> (''id'', JSString ''u2'') \<in> set obj"
    by (simp add: bob_public)
  from 4 google_alice2_created have d: "\<exists>obj s'. validateGoogleUser env_user google_alice2 store0 = (Inr obj, s')
        \<and> ''password'' \<notin> fst ` set obj \<and> (''username'', JSString ''alice1'') \<in> set obj"
    by simp
  from a b c d show ?thesis by blast
qed

subsection \<open>The read flag\<close>

lemma only_marked_read_refl: "only_marked_read m m"
  by (simp add: only_marked_read_def)

lemma only_marked_read_trans:
  "only_marked_read a b \<Longrightarrow> only_marked_read b c \<Longrightarrow> only_marked_read a c"
  by (auto simp: only_marked_read_def)

lemma messages_evolve_refl: "messages_evolve ms ms"
  by (simp add: messages_evolve_def only_marked_read_refl)

lemma messages_evolve_trans:
  "messages_evolve a b \<Longrightarrow> messages_evolve b c \<Longrightarrow> messages_evolve a c"
  unfolding messages_evolve_def
  by (meson le_trans less_le_trans only_marked_read_trans)

lemma messages_evolve_append: "messages_evolve ms (ms @ new)"
  by (simp add: messages_evolve_def nth_append only_marked_read_refl)

lemma mark_read_again: "isRead m \<Longrightarrow> m\<lparr>isRead := True\<rparr> = m"
  by (cases m) simp

lemma messages_evolve_markRead:
  "messages_evolve (messages s) (messages (markRead messageId readerId s))"
  by (auto simp: messages_evolve_def markRead_def only_marked_read_def mark_read_again)

lemma file_create_Inr:
  "file_create e s a b c d p u = Inr (f, s') \<Longrightarrow> messages s' = messages s"
  by (auto simp: file_create_def Let_def split: option.splits if_splits)

lemma FileController_uploadFile_messages:
  "messages (db (snd (FileController_uploadFile e file userId w))) = messages (db w)"
  by (auto simp: FileController_uploadFile_def split: option.splits sum.splits
      dest: file_create_Inr)

lemma createUser_messages: "messages (snd (createUser h e em un pw s)) = messages s"
  by (auto simp: createUser_def Let_def split: sum.splits dest: user_create_Inr)

lemma validateGoogleUser_messages: "messages (snd (validateGoogleUser e g s)) = messages s"
  by (auto simp: validateGoogleUser_def Let_def split: option.splits sum.splits
      dest: user_create_Inr user_update_by_email_Inr)

lemma FilesController_uploadFile_messages:
  "messages (db (snd (FilesController_uploadFile e file r user w))) = messages (db w)
   \<or> (\<exists>m. messages (db (snd (FilesController_uploadFile e file r user w))) = messages (db w) @ [m]
          \<and> \<not> isRead m)"
proof (cases "file")
  case None
  then show ?thesis by (simp add: FilesController_uploadFile_def)
next
  case (Some f)
  note fl = this
  show ?thesis
  proof (cases "truthy (request_userId user) \<and> truthy r")
    case False
    with fl show ?thesis
      by (cases "truthy (request_userId user)")
         (auto simp: uploadFile_no_sender uploadFile_no_receiver unlink_if_exists_simps)
  next
    case True
    then have t: "truthy (request_userId user)" "truthy r" by simp_all
    show ?thesis
    proof (cases "message_create e (db w) (upload_message_data f (the (request_userId user)) (the r))")
      case (Inl err)
      from uploadFile_write_failed [OF t Inl] fl show ?thesis
        by (simp add: unlink_if_exists_simps)
    next
      case (Inr ms)
      obtain m s' where ms: "ms = (m, s')" by (cases ms)
      from Inr ms have c: "message_create e (db w)
          (upload_message_data f (the (request_userId user)) (the r)) = Inr (m, s')" by simp
      from message_create_Inr [OF c]
      have s': "s' = (db w)\<lparr>messages := messages (db w) @ [m]\<rparr>" and nr: "\<not> isRead m"
        by (simp_all add: upload_message_data_def)
      from uploadFile_written [OF t c] fl s' nr show ?thesis
        by (cases "notify_fault e") (simp_all add: Let_def unlink_if_exists_simps)
    qed
  qed
qed

lemma handle_messages:
  "messages (db (handle h e r w)) = messages (db w)
   \<or> (\<exists>m. messages (db (handle h e r w)) = messages (db w) @ [m] \<and> \<not> isRead m)
   \<or> (\<exists>messageId readerId. messages (db (handle h e r w)) = messages (markRead messageId readerId (db w)))"
proof (cases r)
  case (FileUpload fl userId)
  then show ?thesis by (simp add: FileController_uploadFile_messages)
next
  case (RelayUpload fl rid user)
  with FilesController_uploadFile_messages [of e fl rid user w] show ?thesis by auto
next
  case (CreateUser em un pw)
  then show ?thesis by (simp add: createUser_messages)
next
  case (ValidateGoogleUser g)
  then show ?thesis by (simp add: validateGoogleUser_messages)
next
  case (MarkRead messageId readerId)
  then show ?thesis by auto
qed simp_all

lemma handle_evolve: "messages_evolve (messages (db w)) (messages (db (handle h e r w)))"
  using handle_messages [of h e r w]
  by (auto simp: messages_evolve_refl messages_evolve_append messages_evolve_markRead)

lemma handle_new_unread:
  "\<forall>m \<in> set (drop (length (messages (db w))) (messages (db (handle h e r w)))). \<not> isRead m"
  using handle_messages [of h e r w]
  by (auto simp: markRead_def)

lemma run_evolve: "messages_evolve (messages (db w)) (messages (db (run h rs w)))"
proof (induction rs arbitrary: w)
  case Nil
  show ?case by (simp add: messages_evolve_refl)
next
  case (Cons er rs)
  obtain e r where er: "er = (e, r)" by (cases er)
  from handle_evolve [of w h e r] Cons.IH [of "handle h e r w"] er show ?case
    by (auto intro: messages_evolve_trans)
qed

lemma example_run:
  "messages (db (run toy_hash
      [(env_ok, RelayUpload (Some cat_upload) (Some ''u2'') (Some (jwt_of alice))),
       (env_ok, MarkRead ''m1'' ''u2''),
       (env_ok, GetFile ''f1'' ''u2''),
       (env_ok, MarkRead ''m1'' ''u2'')] world2))
     = [shared\<lparr>isRead := True\<rparr>, cat_message]"
  by (simp add: cat_upload_ok markRead_def example_simps cat_message_def)

text \<open>
  C6. The message \<open>FilesController.uploadFile\<close> creates is unread: its \<open>data\<close> gives no
  \<open>isRead\<close> and the column defaults to false. Every request leaves each stored message
  at its place, unchanged or changed from unread to read and in nothing else, and every
  message a request adds is unread. So does every run of requests; a message that is
  read stays exactly as it is, whatever requests follow. The requests are the handlers
  of the sources, none of which updates a message, and \<open>markRead\<close> as the spec words it.
\<close>

theorem isRead_never_reverts:
  "(\<forall>m s'. message_create e s (upload_message_data f sid rid) = Inr (m, s') \<longrightarrow> \<not> isRead m)
   \<and> messages_evolve (messages (db w)) (messages (db (handle h e r w)))
   \<and> (\<forall>m \<in> set (drop (length (messages (db w))) (messages (db (handle h e r w)))). \<not> isRead m)
   \<and> messages_evolve (messages (db w)) (messages (db (run h rs w)))
   \<and> (\<forall>i < length (messages (db w)). isRead (messages (db w) ! i) \<longrightarrow>
         messages (db (run h rs w)) ! i = messages (db w) ! i)"
proof (intro conjI allI impI)
  fix m s' assume "message_create e s (upload_message_data f sid rid) = Inr (m, s')"
  from message_create_Inr [OF this] show "\<not> isRead m"
    by (simp add: upload_message_data_def)
next
  show "messages_evolve (messages (db w)) (messages (db (handle h e r w)))"
    by (rule handle_evolve)
next
  show "\<forall>m \<in> set (drop (length (messages (db w))) (messages (db (handle h e r w)))). \<not> isRead m"
    by (rule handle_new_unread)
next
  show "messages_evolve (messages (db w)) (messages (db (run h rs w)))"
    by (rule run_evolve)
next
  fix i assume "i < length (messages (db w))" and "isRead (messages (db w) ! i)"
  with run_evolve [of w h rs] show "messages (db (run h rs w)) ! i = messages (db w) ! i"
    by (auto simp: messages_evolve_def only_marked_read_def)
qed

text \<open>
  Alice uploads \<open>cat.gif\<close> for Bob, Bob marks her earlier message read, fetches the
  file and marks the message read again: the earlier message is read, the new one unread.
  Marking the read message once more leaves it as it is.
\<close>

theorem isRead_never_reverts_witness:
  "messages (db world2) = [shared] \<and> \<not> isRead shared \<and> \<not> isRead cat_message
   \<and> messages (db (run toy_hash
        [(env_ok, RelayUpload (Some cat_upload) (Some ''u2'') (Some (jwt_of alice))),
         (env_ok, MarkRead ''m1'' ''u2''),
         (env_ok, GetFile ''f1'' ''u2''),
         (env_ok, MarkRead ''m1'' ''u2'')] world2))
       = [shared\<lparr>isRead := True\<rparr>, cat_message]
   \<and> messages_evolve [shared] [shared\<lparr>isRead := True\<rparr>, cat_message]
   \<and> messages (db (run toy_hash [(env_ok, MarkRead ''m1'' ''u2'')]
         (world2\<lparr>db := store0\<lparr>messages := [shared\<lparr>isRead := True\<rparr>, cat_message]\<rparr>\<rparr>))) ! 0
       = shared\<lparr>isRead := True\<rparr>"
  using
    isRead_never_reverts [where e = env_ok and s = "store0\<lparr>messages := [shared]\<rparr>"
      and f = cat_upload and sid = "''u1''" and rid = "''u2''" and w = world2 and h = toy_hash
      and r = "MarkRead ''m1'' ''u2''"
      and rs = "[(env_ok, RelayUpload (Some cat_upload) (Some ''u2'') (Some (jwt_of alice))),
         (env_ok, MarkRead ''m1'' ''u2''),
         (env_ok, GetFile ''f1'' ''u2''),
         (env_ok, MarkRead ''m1'' ''u2'')]"]
    isRead_never_reverts [where e = env_ok and s = "store0\<lparr>messages := [shared]\<rparr>"
      and f = cat_upload and sid = "''u1''" and rid = "''u2''"
      and w = "world2\<lparr>db := store0\<lparr>messages := [shared\<lparr>isRead := True\<rparr>, cat_message]\<rparr>\<rparr>"
      and h = toy_hash and r = "MarkRead ''m1'' ''u2''"
      and rs = "[(env_ok, MarkRead ''m1'' ''u2'')]"]
    example_run cat_message_create
  by (simp add: example_simps)

end
